theory Spec2Isabelle
  imports Complex_Main
begin

section \<open>Floating-point values\<close>

text \<open>
  The sampling code of \<^verbatim>\<open>sample.py\<close> computes with Python and numpy floats, whose
  special values (NaN, the two infinities) steer its control flow: \<^verbatim>\<open>np.isfinite\<close> drives
  the masking, a comparison with NaN is false, a numpy division by zero yields NaN or an
  infinity instead of raising. The model keeps these special values and idealises the rest:
  a finite float is a real number, arithmetic on finite values is exact (no rounding, no
  overflow), and zero has no sign (a division of a non-zero value by zero takes the sign
  of the numerator).
\<close>

datatype npfloat = Fin real | PInf | NInf | NaN

fun isfinite :: "npfloat \<Rightarrow> bool" where
  "isfinite (Fin a) = True"
| "isfinite PInf = False"
| "isfinite NInf = False"
| "isfinite NaN = False"

fun isnan :: "npfloat \<Rightarrow> bool" where
  "isnan NaN = True"
| "isnan (Fin a) = False"
| "isnan PInf = False"
| "isnan NInf = False"

text \<open>Truth value of a float in a Python condition: only zero is false (NaN is true).\<close>

fun truthy :: "npfloat \<Rightarrow> bool" where
  "truthy (Fin a) = (a \<noteq> 0)"
| "truthy PInf = True"
| "truthy NInf = True"
| "truthy NaN = True"

fun fneg :: "npfloat \<Rightarrow> npfloat" where
  "fneg (Fin a) = Fin (- a)"
| "fneg PInf = NInf"
| "fneg NInf = PInf"
| "fneg NaN = NaN"

fun fabs :: "npfloat \<Rightarrow> npfloat" where
  "fabs (Fin a) = Fin \<bar>a\<bar>"
| "fabs PInf = PInf"
| "fabs NInf = PInf"
| "fabs NaN = NaN"

fun fadd :: "npfloat \<Rightarrow> npfloat \<Rightarrow> npfloat" where
  "fadd (Fin a) (Fin b) = Fin (a + b)"
| "fadd NaN y = NaN"
| "fadd x NaN = NaN"
| "fadd PInf NInf = NaN"
| "fadd NInf PInf = NaN"
| "fadd PInf y = PInf"
| "fadd NInf y = NInf"
| "fadd x PInf = PInf"
| "fadd x NInf = NInf"

definition fsub :: "npfloat \<Rightarrow> npfloat \<Rightarrow> npfloat" where
  "fsub x y = fadd x (fneg y)"

text \<open>Sign of a non-NaN value, used by the products and quotients with an infinity.\<close>

fun fsgn :: "npfloat \<Rightarrow> int" where
  "fsgn (Fin a) = (if a < 0 then - 1 else if a = 0 then 0 else 1)"
| "fsgn PInf = 1"
| "fsgn NInf = - 1"
| "fsgn NaN = 0"

definition inf_of_sign :: "int \<Rightarrow> npfloat" where
  "inf_of_sign k = (if k < 0 then NInf else if k = 0 then NaN else PInf)"

fun fmul :: "npfloat \<Rightarrow> npfloat \<Rightarrow> npfloat" where
  "fmul (Fin a) (Fin b) = Fin (a * b)"
| "fmul NaN y = NaN"
| "fmul x NaN = NaN"
| "fmul x y = inf_of_sign (fsgn x * fsgn y)"

fun fdiv :: "npfloat \<Rightarrow> npfloat \<Rightarrow> npfloat" where
  "fdiv (Fin a) (Fin b) = (if b = 0 then inf_of_sign (fsgn (Fin a)) else Fin (a / b))"
| "fdiv NaN y = NaN"
| "fdiv x NaN = NaN"
| "fdiv (Fin a) y = Fin 0"
| "fdiv x (Fin b) = inf_of_sign (fsgn x * (if b < 0 then - 1 else 1))"
| "fdiv x y = NaN"

fun fsqrt :: "npfloat \<Rightarrow> npfloat" where
  "fsqrt (Fin a) = (if a < 0 then NaN else Fin (sqrt a))"
| "fsqrt PInf = PInf"
| "fsqrt NInf = NaN"
| "fsqrt NaN = NaN"

fun fcos :: "npfloat \<Rightarrow> npfloat" where
  "fcos (Fin a) = Fin (cos a)"
| "fcos x = NaN"

fun fsin :: "npfloat \<Rightarrow> npfloat" where
  "fsin (Fin a) = Fin (sin a)"
| "fsin x = NaN"

text \<open>Comparisons: every comparison with NaN is false.\<close>

fun fle :: "npfloat \<Rightarrow> npfloat \<Rightarrow> bool" where
  "fle (Fin a) (Fin b) = (a \<le> b)"
| "fle NaN y = False"
| "fle x NaN = False"
| "fle NInf y = True"
| "fle x PInf = True"
| "fle x y = False"

fun flt :: "npfloat \<Rightarrow> npfloat \<Rightarrow> bool" where
  "flt (Fin a) (Fin b) = (a < b)"
| "flt NaN y = False"
| "flt x NaN = False"
| "flt PInf y = False"
| "flt x NInf = False"
| "flt x y = True"

definition fge :: "npfloat \<Rightarrow> npfloat \<Rightarrow> bool" where
  "fge x y = fle y x"

text \<open>
  Python's built-in \<^verbatim>\<open>min(a, b)\<close> keeps its first argument unless the second is
  smaller, so a NaN first argument is returned as it is.
\<close>

definition py_min :: "npfloat \<Rightarrow> npfloat \<Rightarrow> npfloat" where
  "py_min a b = (if flt b a then b else a)"

text \<open>
  \<^verbatim>\<open>np.pi\<close> is a double constant, the double nearest to the number pi:
  884279719003555 / 2^48 = 3.141592653589793115997963...
\<close>

definition np_pi :: real where
  "np_pi = 884279719003555 / 281474976710656"

section \<open>The numpy reductions the code calls\<close>

text \<open>
  The reductions are those of exact arithmetic. numpy adds doubles: its sums round (the
  mean of thirteen values 0.1 is 0.10000000000000002) and overflow to an infinity, which
  the sums below do not.
\<close>

definition np_sum :: "npfloat list \<Rightarrow> npfloat" where
  "np_sum xs = foldl fadd (Fin 0) xs"

text \<open>\<^verbatim>\<open>np.mean\<close>: the sum divided by the count; NaN (with a warning, no exception) on
  an empty array.\<close>

definition np_mean :: "npfloat list \<Rightarrow> npfloat" where
  "np_mean xs = fdiv (np_sum xs) (Fin (real (length xs)))"

text \<open>\<^verbatim>\<open>np.std\<close>: the square root of the mean of the squared deviations from the mean.\<close>

definition np_std :: "npfloat list \<Rightarrow> npfloat" where
  "np_std xs =
     (let m = np_mean xs
      in fsqrt (np_mean (map (\<lambda>x. fmul (fsub x m) (fsub x m)) xs)))"

text \<open>\<^verbatim>\<open>np.nanmean\<close> and \<^verbatim>\<open>np.nanstd\<close>: the same reductions over the entries that
  are not NaN.\<close>

definition np_nanmean :: "npfloat list \<Rightarrow> npfloat" where
  "np_nanmean xs = np_mean (filter (\<lambda>x. \<not> isnan x) xs)"

definition np_nanstd :: "npfloat list \<Rightarrow> npfloat" where
  "np_nanstd xs = np_std (filter (\<lambda>x. \<not> isnan x) xs)"

section \<open>Errors\<close>

text \<open>
  The Python exceptions that the modelled operations can raise, TypeError and IndexError,
  and the error class that the specification names for a call of \<^verbatim>\<open>coordinates\<close> before
  the extraction, PreconditionError: \<^verbatim>\<open>sample.py\<close> defines no exception class and has no
  \<^verbatim>\<open>raise\<close> statement, so that no operation below returns it.
\<close>

datatype error = TypeError | IndexError | PreconditionError

text \<open>
  Boolean-mask indexing \<^verbatim>\<open>a[mask]\<close> of a one-dimensional array: the entries whose flag
  is set, in order. numpy raises IndexError when the mask and the array differ in length,
  except for an empty mask, which it accepts on every array and which selects nothing.
\<close>

definition mask_index :: "'a list \<Rightarrow> bool list \<Rightarrow> error + 'a list" where
  "mask_index xs flags =
     (if flags \<noteq> [] \<and> length flags \<noteq> length xs then Inl IndexError
      else Inr (map fst (filter snd (zip xs flags))))"

type_synonym series = "npfloat list \<times> npfloat list \<times> npfloat list"

text \<open>The three masked series of the last line of \<^verbatim>\<open>_nan_masking\<close> and
  \<^verbatim>\<open>_iter_sigma_clip\<close>, evaluated left to right.\<close>

definition mask_index3 ::
  "npfloat list \<Rightarrow> npfloat list \<Rightarrow> npfloat list \<Rightarrow> bool list \<Rightarrow> error + series" where
  "mask_index3 angles radii intensities flags =
     (case mask_index angles flags of
        Inl e \<Rightarrow> Inl e
      | Inr a \<Rightarrow>
          (case mask_index radii flags of
             Inl e \<Rightarrow> Inl e
           | Inr r \<Rightarrow>
               (case mask_index intensities flags of
                  Inl e \<Rightarrow> Inl e
                | Inr v \<Rightarrow> Inr (a, r, v))))"

section \<open>Masking and sigma-clipping\<close>

text \<open>\<^verbatim>\<open>Sample._nan_masking\<close>.\<close>

definition nan_masking :: "npfloat list \<Rightarrow> npfloat list \<Rightarrow> npfloat list \<Rightarrow> error + series" where
  "nan_masking angles radii intensities =
     (let nan_flag = map isfinite intensities
      in mask_index3 angles radii intensities nan_flag)"

text \<open>\<^verbatim>\<open>Sample._iter_sigma_clip\<close>, with \<^verbatim>\<open>self.sclip\<close> as first argument.\<close>

definition iter_sigma_clip ::
  "npfloat \<Rightarrow> npfloat list \<Rightarrow> npfloat list \<Rightarrow> npfloat list \<Rightarrow> error + series" where
  "iter_sigma_clip sclip angles radii intensities =
     (let mean = np_nanmean intensities;
          sig = np_nanstd intensities;
          lower = fsub mean (fmul sclip sig);
          upper = fadd mean (fmul sclip sig);
          clipping_mask = map (\<lambda>x. fge x lower \<and> fle x upper) intensities
      in mask_index3 angles radii intensities clipping_mask)"

text \<open>The \<^verbatim>\<open>for iter in range(self.nclip)\<close> loop of \<^verbatim>\<open>_sigma_clip\<close>.\<close>

primrec clip_loop :: "nat \<Rightarrow> npfloat \<Rightarrow> series \<Rightarrow> error + series" where
  "clip_loop 0 sclip s = Inr s"
| "clip_loop (Suc n) sclip s =
     (case s of (angles, radii, intensities) \<Rightarrow>
        (case iter_sigma_clip sclip angles radii intensities of
           Inl e \<Rightarrow> Inl e
         | Inr s' \<Rightarrow> clip_loop n sclip s'))"

text \<open>\<^verbatim>\<open>Sample._sigma_clip\<close>, with \<^verbatim>\<open>self.sclip\<close> and \<^verbatim>\<open>self.nclip\<close> as arguments.\<close>

definition sigma_clip ::
  "npfloat \<Rightarrow> int \<Rightarrow> npfloat list \<Rightarrow> npfloat list \<Rightarrow> npfloat list \<Rightarrow> error + series" where
  "sigma_clip sclip nclip angles radii intensities =
     (if nclip > 0 then clip_loop (nat nclip) sclip (angles, radii, intensities)
      else Inr (angles, radii, intensities))"

text \<open>
  The masking-and-clipping pipeline of \<^verbatim>\<open>_extract\<close> (its lines after the walk): NaN
  masking, then sigma-clipping, then \<^verbatim>\<open>len(angles)\<close> as the number of actual points.
\<close>

definition mask_and_clip ::
  "npfloat \<Rightarrow> int \<Rightarrow> npfloat list \<Rightarrow> npfloat list \<Rightarrow> npfloat list \<Rightarrow> error + series" where
  "mask_and_clip sclip nclip angles radii intensities =
     (case nan_masking angles radii intensities of
        Inl e \<Rightarrow> Inl e
      | Inr (a, r, v) \<Rightarrow> sigma_clip sclip nclip a r v)"

definition pipeline_points ::
  "npfloat \<Rightarrow> int \<Rightarrow> npfloat list \<Rightarrow> npfloat list \<Rightarrow> npfloat list \<Rightarrow> error + nat" where
  "pipeline_points sclip nclip angles radii intensities =
     (case mask_and_clip sclip nclip angles radii intensities of
        Inl e \<Rightarrow> Inl e
      | Inr (a, r, v) \<Rightarrow> Inr (length a))"

section \<open>Collaborators: geometry and integrators\<close>

text \<open>
  The attributes of \<^verbatim>\<open>Geometry\<close> that \<^verbatim>\<open>sample.py\<close> reads and writes. The class
  itself (\<^verbatim>\<open>geometry.py\<close>) is not part of the sources at hand: its derived
  attributes (initial polar radius and angle) and its \<^verbatim>\<open>radius\<close> method are parameters of
  the model, see \<open>collaborators\<close> below.
\<close>

record Geometry =
  x0 :: npfloat
  y0 :: npfloat
  sma :: npfloat
  eps :: npfloat
  pa :: npfloat
  astep :: npfloat
  linear_growth :: bool
  initial_polar_radius :: npfloat
  initial_polar_angle :: npfloat

text \<open>The keys of the \<^verbatim>\<open>integrators\<close> dictionary; the type leaves out the lookup of
  an unknown key (a KeyError in Python).\<close>

datatype mode = BI_LINEAR | MEAN | MEDIAN | NEAREST_NEIGHBOR

type_synonym image = "npfloat list list"

text \<open>
  Modelled from the spec: the Integrator strategy family (\<^verbatim>\<open>integrator.py\<close> is not part
  of the sources at hand). An integrator class is constructed from the image and the
  geometry (\<open>new\<close>; the three output lists it is given are owned by the caller in the
  model); \<open>integrate\<close> at a radius and an angle appends one (angle, radius, intensity)
  sample, returned here next to the integrator's new internal state of type \<open>'i\<close>, and
  records the sector geometry, which \<open>get_sector_area\<close> and \<open>get_polar_angle_step\<close> read;
  \<open>is_area\<close> tells the area-sensitive integrators.
\<close>

record 'i Integrator =
  new :: "image \<Rightarrow> Geometry \<Rightarrow> 'i"
  is_area :: "'i \<Rightarrow> bool"
  integrate :: "'i \<Rightarrow> npfloat \<Rightarrow> npfloat \<Rightarrow> 'i \<times> (npfloat \<times> npfloat \<times> npfloat)"
  get_sector_area :: "'i \<Rightarrow> npfloat"
  get_polar_angle_step :: "'i \<Rightarrow> npfloat"

text \<open>
  What \<^verbatim>\<open>sample.py\<close> imports from the modules that are not at hand: the
  \<^verbatim>\<open>integrators\<close> dictionary, the constant \<^verbatim>\<open>PHI_MIN\<close>, the initial polar radius and
  angle that the \<^verbatim>\<open>Geometry\<close> constructor derives from its seven arguments
  (x0, y0, sma, eps, pa, astep, linear_growth), and \<^verbatim>\<open>Geometry.radius\<close>.
\<close>

record 'i collaborators =
  integrators :: "mode \<Rightarrow> 'i Integrator"
  PHI_MIN :: npfloat
  geometry_initial ::
    "npfloat \<Rightarrow> npfloat \<Rightarrow> npfloat \<Rightarrow> npfloat \<Rightarrow> npfloat \<Rightarrow> npfloat \<Rightarrow> bool
       \<Rightarrow> npfloat \<times> npfloat"
  geometry_radius :: "Geometry \<Rightarrow> npfloat \<Rightarrow> npfloat"

text \<open>\<^verbatim>\<open>Geometry(x0, y0, sma, eps, pa, astep, linear_growth)\<close>.\<close>

definition Geometry_init ::
  "'i collaborators \<Rightarrow> npfloat \<Rightarrow> npfloat \<Rightarrow> npfloat \<Rightarrow> npfloat \<Rightarrow> npfloat \<Rightarrow> npfloat \<Rightarrow> bool
     \<Rightarrow> Geometry" where
  "Geometry_init env x y a e p st lg =
     (case geometry_initial env x y a e p st lg of
        (r0, phi0) \<Rightarrow>
          \<lparr>x0 = x, y0 = y, sma = a, eps = e, pa = p, astep = st, linear_growth = lg,
           initial_polar_radius = r0, initial_polar_angle = phi0\<rparr>)"

section \<open>The Sample class\<close>

text \<open>The sampled values: \<^verbatim>\<open>values[0]\<close> angles, \<^verbatim>\<open>values[1]\<close> radii,
  \<^verbatim>\<open>values[2]\<close> intensities.\<close>

definition row0 :: "series \<Rightarrow> npfloat list" where
  "row0 t = fst t"

definition row1 :: "series \<Rightarrow> npfloat list" where
  "row1 t = fst (snd t)"

definition row2 :: "series \<Rightarrow> npfloat list" where
  "row2 t = snd (snd t)"

text \<open>
  The attributes of a Sample. \<open>None\<close> is Python's \<^verbatim>\<open>None\<close>. The fields \<open>image'\<close> and
  \<open>values'\<close> are the attributes \<^verbatim>\<open>image\<close> and \<^verbatim>\<open>values\<close>.
\<close>

record Sample =
  image' :: image
  integrmode :: mode
  geometry :: Geometry
  sclip :: npfloat
  nclip :: int
  values' :: "series option"
  mean :: "npfloat option"
  gradient :: "npfloat option"
  gradient_error :: "npfloat option"
  gradient_relative_error :: "npfloat option"
  sector_area :: "npfloat option"
  total_points :: nat
  actual_points :: nat

text \<open>\<^verbatim>\<open>image.shape[0] / 2\<close> and \<^verbatim>\<open>image.shape[1] / 2\<close> (true division).\<close>

definition image_center :: "image \<Rightarrow> npfloat \<times> npfloat" where
  "image_center img =
     (Fin (real (length img) / 2),
      Fin (real (case img of [] \<Rightarrow> 0 | row # _ \<Rightarrow> length row) / 2))"

text \<open>
  The center of the constructor's \<^verbatim>\<open>else\<close> branch:
  \<^verbatim>\<open>if not _x0 or not _y0\<close> holds when a coordinate is \<^verbatim>\<open>None\<close> or zero.
\<close>

fun center :: "npfloat option \<Rightarrow> npfloat option \<Rightarrow> image \<Rightarrow> npfloat \<times> npfloat" where
  "center (Some x) (Some y) img =
     (if \<not> truthy x \<or> \<not> truthy y then image_center img else (x, y))"
| "center None y img = image_center img"
| "center x None img = image_center img"

text \<open>
  \<^verbatim>\<open>Sample.__init__\<close>; the arguments in the order
  image, sma, x0, y0, astep, eps, position_angle, sclip, nclip, linear_growth, integrmode,
  geometry.
\<close>

definition Sample_init ::
  "'i collaborators \<Rightarrow> image \<Rightarrow> npfloat \<Rightarrow> npfloat option \<Rightarrow> npfloat option \<Rightarrow> npfloat
     \<Rightarrow> npfloat \<Rightarrow> npfloat \<Rightarrow> npfloat \<Rightarrow> int \<Rightarrow> bool \<Rightarrow> mode \<Rightarrow> Geometry option \<Rightarrow> Sample" where
  "Sample_init env img a x y st e position_angle sc nc lg im geom =
     \<lparr>image' = img,
      integrmode = im,
      geometry =
        (case geom of
           Some g \<Rightarrow> g\<lparr>sma := a\<rparr>
         | None \<Rightarrow>
             (case center x y img of
                (cx, cy) \<Rightarrow> Geometry_init env cx cy a e position_angle st lg)),
      sclip = sc,
      nclip = nc,
      values' = None,
      mean = None,
      gradient = None,
      gradient_error = None,
      gradient_relative_error = None,
      sector_area = None,
      total_points = 0,
      actual_points = 0\<rparr>"

subsection \<open>The walk along the elliptical path\<close>

text \<open>
  The local variables of \<^verbatim>\<open>_extract\<close> that its \<^verbatim>\<open>while\<close> loop updates, with
  \<^verbatim>\<open>self.total_points\<close>. \<open>w_calls\<close> is not a variable of the code: it records the
  (radius, angle) of every \<^verbatim>\<open>integrate\<close> call made, to tell an extraction that invokes
  the integrator from one that does not.
\<close>

record 'i walk_state =
  w_integrator :: 'i
  w_angles :: "npfloat list"
  w_radii :: "npfloat list"
  w_intensities :: "npfloat list"
  w_sector_areas :: "npfloat list"
  w_total_points :: nat
  w_radius :: npfloat
  w_phi :: npfloat
  w_calls :: "(npfloat \<times> npfloat) list"

text \<open>The loop condition \<^verbatim>\<open>phi <= np.pi * 2. + PHI_MIN\<close>.\<close>

definition walk_cond :: "'i collaborators \<Rightarrow> 'i walk_state \<Rightarrow> bool" where
  "walk_cond env st = fle (w_phi st) (fadd (fmul (Fin np_pi) (Fin 2)) (PHI_MIN env))"

text \<open>The loop body.\<close>

definition walk_step ::
  "'i collaborators \<Rightarrow> 'i Integrator \<Rightarrow> Geometry \<Rightarrow> 'i walk_state \<Rightarrow> 'i walk_state" where
  "walk_step env cls geom st =
     (case integrate cls (w_integrator st) (w_radius st) (w_phi st) of
        (i, (a, r, v)) \<Rightarrow>
          (let phistep = get_polar_angle_step cls i;
               phi' = fadd (w_phi st) (py_min phistep (Fin (1/2)))
           in \<lparr>w_integrator = i,
               w_angles = w_angles st @ [a],
               w_radii = w_radii st @ [r],
               w_intensities = w_intensities st @ [v],
               w_sector_areas = w_sector_areas st @ [get_sector_area cls i],
               w_total_points = w_total_points st + 1,
               w_radius = geometry_radius env geom phi',
               w_phi = phi',
               w_calls = w_calls st @ [(w_radius st, w_phi st)]\<rparr>))"

text \<open>The loop: it need not end (an angular step that is not positive), so the result is
  optional, \<open>None\<close> for a walk that runs forever.\<close>

partial_function (option) walk ::
  "'i collaborators \<Rightarrow> 'i Integrator \<Rightarrow> Geometry \<Rightarrow> 'i walk_state \<Rightarrow> 'i walk_state option" where
  "walk env cls geom st =
     (if walk_cond env st then walk env cls geom (walk_step env cls geom st) else Some st)"

text \<open>
  The first half of \<^verbatim>\<open>_extract\<close>: the integrator is built, an area integrator is
  probed once at the initial radius and angle and replaced by a new instance on new output
  lists (the bi-linear one when the probe's sector area is below 1.0), and the walk runs.
\<close>

definition sample_walk :: "'i collaborators \<Rightarrow> Sample \<Rightarrow> 'i walk_state option" where
  "sample_walk env s =
     (let cls0 = integrators env (integrmode s);
          integrator0 = new cls0 (image' s) (geometry s);
          radius = initial_polar_radius (geometry s);
          phi = initial_polar_angle (geometry s);
          start = (\<lambda>cls i calls.
            walk env cls (geometry s)
              \<lparr>w_integrator = i, w_angles = [], w_radii = [], w_intensities = [],
               w_sector_areas = [], w_total_points = 0, w_radius = radius, w_phi = phi,
               w_calls = calls\<rparr>)
      in if is_area cls0 integrator0 then
           (let area = get_sector_area cls0 (fst (integrate cls0 integrator0 radius phi))
            in if flt area (Fin 1) then
                 start (integrators env BI_LINEAR)
                   (new (integrators env BI_LINEAR) (image' s) (geometry s)) [(radius, phi)]
               else start cls0 (new cls0 (image' s) (geometry s)) [(radius, phi)])
         else start cls0 integrator0 [])"

text \<open>
  \<^verbatim>\<open>Sample._extract\<close> (named \<open>Sample_extract'\<close> here): the walk, the mean sector area, the
  masking, the clipping and the counters. The result is \<open>None\<close> when the walk does not
  end, an error when a step raises, and otherwise the sampled values, the updated Sample
  and the integrate calls made.
\<close>

definition Sample_extract' ::
  "'i collaborators \<Rightarrow> Sample \<Rightarrow> (error + series \<times> Sample \<times> (npfloat \<times> npfloat) list) option" where
  "Sample_extract' env s =
     (case sample_walk env s of
        None \<Rightarrow> None
      | Some w \<Rightarrow>
          (case mask_and_clip (sclip s) (nclip s) (w_angles w) (w_radii w) (w_intensities w) of
             Inl e \<Rightarrow> Some (Inl e)
           | Inr (a, r, v) \<Rightarrow>
               Some (Inr ((a, r, v),
                 s\<lparr>total_points := w_total_points w,
                   sector_area := Some (np_mean (w_sector_areas w)),
                   actual_points := length a\<rparr>,
                 w_calls w))))"

text \<open>\<^verbatim>\<open>Sample.extract\<close>: the cached values when there are some, else \<^verbatim>\<open>_extract\<close>,
  whose result is cached.\<close>

definition Sample_extract ::
  "'i collaborators \<Rightarrow> Sample \<Rightarrow> (error + series \<times> Sample \<times> (npfloat \<times> npfloat) list) option" where
  "Sample_extract env s =
     (case values' s of
        Some t \<Rightarrow> Some (Inr (t, s, []))
      | None \<Rightarrow>
          (case Sample_extract' env s of
             None \<Rightarrow> None
           | Some (Inl e) \<Rightarrow> Some (Inl e)
           | Some (Inr (t, s1, calls)) \<Rightarrow> Some (Inr (t, s1\<lparr>values' := Some t\<rparr>, calls))))"

subsection \<open>Mean intensity and gradient\<close>

text \<open>
  The Sample that \<^verbatim>\<open>_get_gradient\<close> builds at the semi-major axis
  \<^verbatim>\<open>(1. + step) * self.geometry.sma\<close>, from the scalars of this one.
\<close>

definition gradient_sample :: "'i collaborators \<Rightarrow> Sample \<Rightarrow> npfloat \<Rightarrow> Sample" where
  "gradient_sample env s step =
     (let gradient_sma = fmul (fadd (Fin 1) step) (sma (geometry s))
      in Sample_init env (image' s) gradient_sma
           (Some (x0 (geometry s))) (Some (y0 (geometry s)))
           (astep (geometry s)) (eps (geometry s)) (pa (geometry s))
           (sclip s) (nclip s) (linear_growth (geometry s)) (integrmode s) None)"

text \<open>
  \<^verbatim>\<open>Sample._get_gradient\<close>: the gradient, its error, and this Sample after the
  \<^verbatim>\<open>self.extract()\<close> of the method. Subtracting \<^verbatim>\<open>self.mean\<close> raises TypeError while
  the mean is \<^verbatim>\<open>None\<close>. The quotients are numpy's: a zero divisor gives NaN or an infinity.
\<close>

definition Sample_get_gradient ::
  "'i collaborators \<Rightarrow> Sample \<Rightarrow> npfloat \<Rightarrow> (error + npfloat \<times> npfloat \<times> Sample) option" where
  "Sample_get_gradient env s step =
     (case Sample_extract env (gradient_sample env s step) of
        None \<Rightarrow> None
      | Some (Inl e) \<Rightarrow> Some (Inl e)
      | Some (Inr (sg, gs, calls_g)) \<Rightarrow>
          (let mean_g = np_mean (row2 sg)
           in case mean s of
                None \<Rightarrow> Some (Inl TypeError)
              | Some m \<Rightarrow>
                  (let grad = fdiv (fdiv (fsub mean_g m) (sma (geometry s))) step
                   in case Sample_extract env s of
                        None \<Rightarrow> None
                      | Some (Inl e) \<Rightarrow> Some (Inl e)
                      | Some (Inr (t, s1, calls)) \<Rightarrow>
                          (let sigma = np_std (row2 t);
                               sigma_g = np_std (row2 sg);
                               grad_error =
                                 fdiv (fdiv
                                   (fsqrt (fadd
                                      (fdiv (fmul sigma sigma) (Fin (real (length (row2 t)))))
                                      (fdiv (fmul sigma_g sigma_g)
                                         (Fin (real (length (row2 sg)))))))
                                   (sma (geometry s1))) step
                           in Some (Inr (grad, grad_error, s1))))))"

text \<open>\<^verbatim>\<open>previous_gradient\<close>: the recorded gradient, or -0.05 when it is \<^verbatim>\<open>None\<close> or
  zero (\<^verbatim>\<open>if not previous_gradient\<close>).\<close>

definition previous_gradient :: "Sample \<Rightarrow> npfloat" where
  "previous_gradient s =
     (case gradient s of
        None \<Rightarrow> Fin (- (5/100))
      | Some g \<Rightarrow> if \<not> truthy g then Fin (- (5/100)) else g)"

text \<open>
  The last lines of \<^verbatim>\<open>update\<close>, from the second meaningfulness test on: the fallback to
  the previous gradient times 0.8, and the three attributes. \<^verbatim>\<open>if gradient_error\<close> holds
  for a value that is neither \<^verbatim>\<open>None\<close> nor zero.
\<close>

definition finish_update :: "Sample \<Rightarrow> npfloat \<Rightarrow> npfloat \<Rightarrow> npfloat \<Rightarrow> Sample" where
  "finish_update s prev grad grad_error =
     (let fallback = fge grad (fdiv prev (Fin 3));
          grad' = (if fallback then fmul prev (Fin (8/10)) else grad);
          grad_error' = (if fallback then None else Some grad_error)
      in s\<lparr>gradient := Some grad',
           gradient_error := grad_error',
           gradient_relative_error :=
             (case grad_error' of
                None \<Rightarrow> None
              | Some e \<Rightarrow> if truthy e then Some (fdiv e (fabs grad')) else None)\<rparr>)"

text \<open>\<^verbatim>\<open>Sample.update\<close>.\<close>

definition Sample_update :: "'i collaborators \<Rightarrow> Sample \<Rightarrow> (error + Sample) option" where
  "Sample_update env s =
     (let step = astep (geometry s)
      in case Sample_extract env s of
           None \<Rightarrow> None
         | Some (Inl e) \<Rightarrow> Some (Inl e)
         | Some (Inr (t, s1, calls)) \<Rightarrow>
             (let s2 = s1\<lparr>mean := Some (np_mean (row2 t))\<rparr>
              in case Sample_get_gradient env s2 step of
                   None \<Rightarrow> None
                 | Some (Inl e) \<Rightarrow> Some (Inl e)
                 | Some (Inr (grad, grad_error, s3)) \<Rightarrow>
                     (let prev = previous_gradient s3
                      in if fge grad (fdiv prev (Fin 3)) then
                           (case Sample_get_gradient env s3 (fmul (Fin 2) step) of
                              None \<Rightarrow> None
                            | Some (Inl e) \<Rightarrow> Some (Inl e)
                            | Some (Inr (grad2, grad_error2, s4)) \<Rightarrow>
                                Some (Inr (finish_update s4 prev grad2 grad_error2)))
                         else Some (Inr (finish_update s3 prev grad grad_error)))))"

subsection \<open>Coordinates\<close>

text \<open>
  The loop of \<^verbatim>\<open>coordinates\<close> over \<^verbatim>\<open>range(len(x))\<close>, where \<^verbatim>\<open>x\<close> is as long as
  the angles: reading \<^verbatim>\<open>radii[i]\<close> beyond the radii raises IndexError.
\<close>

primrec coordinates_loop ::
  "Geometry \<Rightarrow> npfloat list \<Rightarrow> npfloat list \<Rightarrow> nat list
     \<Rightarrow> error + npfloat list \<times> npfloat list" where
  "coordinates_loop g angles radii [] = Inr ([], [])"
| "coordinates_loop g angles radii (i # rest) =
     (if i < length radii \<and> i < length angles then
        (case coordinates_loop g angles radii rest of
           Inl e \<Rightarrow> Inl e
         | Inr (x, y) \<Rightarrow>
             Inr (fadd (fmul (radii ! i) (fcos (fadd (angles ! i) (pa g)))) (x0 g) # x,
                  fadd (fmul (radii ! i) (fsin (fadd (angles ! i) (pa g)))) (y0 g) # y))
      else Inl IndexError)"

text \<open>\<^verbatim>\<open>Sample.coordinates\<close>: subscripting \<^verbatim>\<open>self.values\<close> raises TypeError while it
  is \<^verbatim>\<open>None\<close>.\<close>

definition Sample_coordinates :: "Sample \<Rightarrow> error + npfloat list \<times> npfloat list" where
  "Sample_coordinates s =
     (case values' s of
        None \<Rightarrow> Inl TypeError
      | Some t \<Rightarrow>
          coordinates_loop (geometry s) (row0 t) (row1 t) [0..<length (row0 t)])"

subsection \<open>The probe of an area integrator\<close>

text \<open>
  The parts of the first half of \<^verbatim>\<open>_extract\<close>, named to state what the probe does:
  whether the configured integrator is area-sensitive, the sector area that its probe
  integration at the initial radius and angle reports, a walk that starts from a new
  instance of an integrator class on new output lists with no call made before, and the
  record of the probe call put in front of the calls of a walk.
\<close>

definition area_sensitive :: "'i collaborators \<Rightarrow> Sample \<Rightarrow> bool" where
  "area_sensitive env s =
     (let cls0 = integrators env (integrmode s)
      in is_area cls0 (new cls0 (image' s) (geometry s)))"

definition probe_area :: "'i collaborators \<Rightarrow> Sample \<Rightarrow> npfloat" where
  "probe_area env s =
     (let cls0 = integrators env (integrmode s)
      in get_sector_area cls0
           (fst (integrate cls0 (new cls0 (image' s) (geometry s))
              (initial_polar_radius (geometry s)) (initial_polar_angle (geometry s)))))"

definition fresh_walk :: "'i collaborators \<Rightarrow> 'i Integrator \<Rightarrow> Sample \<Rightarrow> 'i walk_state option" where
  "fresh_walk env cls s =
     walk env cls (geometry s)
       \<lparr>w_integrator = new cls (image' s) (geometry s), w_angles = [], w_radii = [],
        w_intensities = [], w_sector_areas = [], w_total_points = 0,
        w_radius = initial_polar_radius (geometry s),
        w_phi = initial_polar_angle (geometry s), w_calls = []\<rparr>"

definition log_probe :: "Sample \<Rightarrow> 'i walk_state \<Rightarrow> 'i walk_state" where
  "log_probe s w =
     w\<lparr>w_calls :=
         (initial_polar_radius (geometry s), initial_polar_angle (geometry s)) # w_calls w\<rparr>"



section \<open>Test collaborators\<close>

text \<open>
  Concrete collaborators on which the operations are run: a circular geometry (the radius
  at every angle is the semi-major axis, the walk starts at the angle \<open>phi0\<close>) and
  integrators that read the intensity \<open>f radius angle\<close> of an analytic image, suggest an
  angular step of 0.5 and count their calls. The mean and median integrators are
  area-sensitive, report a sector area of 0.5 and read intensities that are higher by one
  than those of the bi-linear integrator.
\<close>

definition stub_integrator ::
  "bool \<Rightarrow> npfloat \<Rightarrow> (npfloat \<Rightarrow> npfloat \<Rightarrow> npfloat) \<Rightarrow> nat Integrator" where
  "stub_integrator area_flag area f =
     \<lparr>new = (\<lambda>img g. 0),
      is_area = (\<lambda>i. area_flag),
      integrate = (\<lambda>i r phi. (i + 1, (phi, r, f r phi))),
      get_sector_area = (\<lambda>i. area),
      get_polar_angle_step = (\<lambda>i. Fin (1/2))\<rparr>"

definition stub_integrators ::
  "(npfloat \<Rightarrow> npfloat \<Rightarrow> npfloat) \<Rightarrow> mode \<Rightarrow> nat Integrator" where
  "stub_integrators f m =
     (case m of
        BI_LINEAR \<Rightarrow> stub_integrator False (Fin 1) f
      | NEAREST_NEIGHBOR \<Rightarrow> stub_integrator False (Fin 1) f
      | MEAN \<Rightarrow> stub_integrator True (Fin (1/2)) (\<lambda>r phi. fadd (f r phi) (Fin 1))
      | MEDIAN \<Rightarrow> stub_integrator True (Fin (1/2)) (\<lambda>r phi. fadd (f r phi) (Fin 1)))"

definition stub_env :: "(npfloat \<Rightarrow> npfloat \<Rightarrow> npfloat) \<Rightarrow> npfloat \<Rightarrow> nat collaborators" where
  "stub_env f phi0 =
     \<lparr>integrators = stub_integrators f,
      PHI_MIN = Fin (5/100),
      geometry_initial = (\<lambda>x y a e p st lg. (a, phi0)),
      geometry_radius = (\<lambda>g phi. sma g)\<rparr>"

text \<open>A 4 x 6 image, and a Sample on it: semi-major axis 10, center (3, 2), step 0.1,
  ellipticity 0, position angle 0, sigma-clip threshold 3.\<close>

definition stub_image :: image where
  "stub_image = replicate 4 (replicate 6 (Fin 10))"

definition stub_sample ::
  "(npfloat \<Rightarrow> npfloat \<Rightarrow> npfloat) \<Rightarrow> npfloat \<Rightarrow> int \<Rightarrow> mode \<Rightarrow> Sample" where
  "stub_sample f phi0 nc im =
     Sample_init (stub_env f phi0) stub_image (Fin 10) (Some (Fin 3)) (Some (Fin 2))
       (Fin (1/10)) (Fin 0) (Fin 0) (Fin 3) nc False im None"

text \<open>Analytic images for the test integrators: lit below the angle 3 and invalid beyond,
  constant, invalid everywhere, and falling linearly with the radius.\<close>

definition half_lit :: "npfloat \<Rightarrow> npfloat \<Rightarrow> npfloat" where
  "half_lit r phi = (if flt phi (Fin 3) then Fin 10 else NaN)"

definition flat10 :: "npfloat \<Rightarrow> npfloat \<Rightarrow> npfloat" where
  "flat10 r phi = Fin 10"

definition dark :: "npfloat \<Rightarrow> npfloat \<Rightarrow> npfloat" where
  "dark r phi = NaN"

definition radial :: "npfloat \<Rightarrow> npfloat \<Rightarrow> npfloat" where
  "radial r phi = fsub (Fin 100) (fmul (Fin 5) r)"

text \<open>The angles of a walk that starts at 0.25 and advances by 0.5.\<close>

definition stub_angles :: "npfloat list" where
  "stub_angles = [Fin (1/4), Fin (3/4), Fin (5/4), Fin (7/4), Fin (9/4), Fin (11/4), Fin (13/4),
     Fin (15/4), Fin (17/4), Fin (19/4), Fin (21/4), Fin (23/4), Fin (25/4)]"

section \<open>Invariant of the walk\<close>

text \<open>The three output lists of the walk have one entry for each point counted.\<close>

definition aligned :: "'i walk_state \<Rightarrow> bool" where
  "aligned st \<longleftrightarrow> length (w_angles st) = w_total_points st
     \<and> length (w_radii st) = w_total_points st
     \<and> length (w_intensities st) = w_total_points st"

section \<open>Masking and clipping keep the three series aligned\<close>


lemma mask_index_eq_len:
  "length flags = length xs \<Longrightarrow> mask_index xs flags = Inr (map fst (filter snd (zip xs flags)))"
  by (simp add: mask_index_def)

lemma length_masked:
  "length flags = length xs \<Longrightarrow>
   length (filter snd (zip xs flags)) = length (filter id flags)"
proof (induction xs arbitrary: flags)
  case Nil
  then show ?case by simp
next
  case (Cons x xs)
  then obtain f fs where "flags = f # fs" by (cases flags) auto
  with Cons show ?case by simp
qed

lemma mask_index3_ok:
  assumes "length angles = length flags" "length radii = length flags"
    "length intensities = length flags"
  shows "\<exists>a r v. mask_index3 angles radii intensities flags = Inr (a, r, v)
           \<and> length a = length (filter id flags) \<and> length r = length (filter id flags)
           \<and> length v = length (filter id flags)
           \<and> v = map fst (filter snd (zip intensities flags))"
  using assms by (simp add: mask_index3_def mask_index_eq_len length_masked)

lemma length_filter_id_le: "length (filter id (map P xs)) = length (filter P xs)"
  by (induction xs) auto

lemma nan_masking_ok:
  assumes "length angles = length intensities" "length radii = length intensities"
  shows "\<exists>a r v. nan_masking angles radii intensities = Inr (a, r, v)
           \<and> length a = length (filter isfinite intensities)
           \<and> length r = length (filter isfinite intensities)
           \<and> length v = length (filter isfinite intensities)
           \<and> v = filter isfinite intensities"
proof -
  let ?fl = "map isfinite intensities"
  have "length angles = length ?fl" "length radii = length ?fl" "length intensities = length ?fl"
    using assms by simp_all
  from mask_index3_ok[OF this] obtain a r v where
    h: "mask_index3 angles radii intensities ?fl = Inr (a, r, v)"
      "length a = length (filter id ?fl)" "length r = length (filter id ?fl)"
      "length v = length (filter id ?fl)" "v = map fst (filter snd (zip intensities ?fl))"
    by blast
  have "map fst (filter snd (zip intensities ?fl)) = filter isfinite intensities"
    by (induction intensities) auto
  with h show ?thesis
    by (simp add: nan_masking_def length_filter_id_le)
qed

lemma iter_sigma_clip_ok:
  assumes "length angles = length intensities" "length radii = length intensities"
  shows "\<exists>a r v. iter_sigma_clip sc angles radii intensities = Inr (a, r, v)
           \<and> length a = length v \<and> length r = length v
           \<and> length v \<le> length intensities"
proof -
  define fl where "fl = map (\<lambda>x. fge x (fsub (np_nanmean intensities) (fmul sc (np_nanstd intensities)))
           \<and> fle x (fadd (np_nanmean intensities) (fmul sc (np_nanstd intensities)))) intensities"
  have "length angles = length fl" "length radii = length fl" "length intensities = length fl"
    using assms by (simp_all add: fl_def)
  from mask_index3_ok[OF this] obtain a r v where
    h: "mask_index3 angles radii intensities fl = Inr (a, r, v)"
      "length a = length (filter id fl)" "length r = length (filter id fl)"
      "length v = length (filter id fl)"
    by blast
  have "length (filter id fl) \<le> length intensities"
    using length_filter_le[of id fl] by (simp add: fl_def)
  with h show ?thesis
    by (simp add: iter_sigma_clip_def Let_def fl_def[symmetric])
qed

lemma clip_loop_ok:
  assumes "length angles = length intensities" "length radii = length intensities"
  shows "\<exists>a r v. clip_loop n sc (angles, radii, intensities) = Inr (a, r, v)
           \<and> length a = length v \<and> length r = length v
           \<and> length v \<le> length intensities"
  using assms
proof (induction n arbitrary: angles radii intensities)
  case 0
  then show ?case by simp
next
  case (Suc n)
  from iter_sigma_clip_ok[OF Suc.prems, of sc] obtain a r v where
    h: "iter_sigma_clip sc angles radii intensities = Inr (a, r, v)"
      "length a = length v" "length r = length v" "length v \<le> length intensities"
    by blast
  from Suc.IH[OF h(2) h(3)] obtain a' r' v' where
    "clip_loop n sc (a, r, v) = Inr (a', r', v')" "length a' = length v'"
    "length r' = length v'" "length v' \<le> length v" by blast
  with h show ?case by simp
qed

lemma clip_loop_Suc_right:
  "clip_loop (Suc n) sc s =
     (case clip_loop n sc s of
        Inl e \<Rightarrow> Inl e
      | Inr (a, r, v) \<Rightarrow> iter_sigma_clip sc a r v)"
proof (induction n arbitrary: s)
  case 0
  then show ?case by (cases s) (simp split: sum.splits)
next
  case (Suc n)
  obtain a r v where s: "s = (a, r, v)" by (cases s) auto
  show ?case
  proof (cases "iter_sigma_clip sc a r v")
    case (Inl e)
    then show ?thesis using s by simp
  next
    case (Inr s')
    have "clip_loop (Suc (Suc n)) sc s = clip_loop (Suc n) sc s'"
      using s Inr by simp
    also have "\<dots> = (case clip_loop n sc s' of Inl e \<Rightarrow> Inl e
                      | Inr (a, r, v) \<Rightarrow> iter_sigma_clip sc a r v)"
      by (rule Suc.IH)
    also have "clip_loop n sc s' = clip_loop (Suc n) sc s"
      using s Inr by simp
    finally show ?thesis .
  qed
qed

lemma sigma_clip_ok:
  assumes "length angles = length intensities" "length radii = length intensities"
  shows "\<exists>a r v. sigma_clip sc nc angles radii intensities = Inr (a, r, v)
           \<and> length a = length v \<and> length r = length v
           \<and> length v \<le> length intensities"
  using clip_loop_ok[OF assms] assms by (simp add: sigma_clip_def)

lemma sigma_clip_step:
  assumes "length angles = length intensities" "length radii = length intensities"
  shows "\<exists>a r v a' r' v'.
           sigma_clip sc (int n) angles radii intensities = Inr (a, r, v)
         \<and> sigma_clip sc (int n + 1) angles radii intensities = Inr (a', r', v')
         \<and> length a' \<le> length a"
proof -
  from clip_loop_ok[OF assms, of n sc] obtain a r v where
    h: "clip_loop n sc (angles, radii, intensities) = Inr (a, r, v)"
      "length a = length v" "length r = length v" by blast
  from iter_sigma_clip_ok[OF h(2) h(3), of sc] obtain a' r' v' where
    h': "iter_sigma_clip sc a r v = Inr (a', r', v')" "length a' = length v'"
      "length v' \<le> length v" by blast
  have s1: "sigma_clip sc (int n + 1) angles radii intensities = Inr (a', r', v')"
    using clip_loop_Suc_right[of n sc "(angles, radii, intensities)"] h h'
    by (simp add: sigma_clip_def nat_add_distrib)
  have s0: "sigma_clip sc (int n) angles radii intensities = Inr (a, r, v)"
  proof (cases n)
    case 0
    with h show ?thesis by (simp add: sigma_clip_def)
  next
    case (Suc m)
    then have "int n > 0" by simp
    with h show ?thesis by (simp add: sigma_clip_def del: clip_loop.simps)
  qed
  from s0 s1 h h' show ?thesis by simp
qed


section \<open>The walk: simulation and invariants\<close>


lemma walk_simulation:
  assumes run: "walk env cls geom st = Some w"
    and rel: "R st st'"
    and step: "\<And>a b. R a b \<Longrightarrow> walk_cond env a \<Longrightarrow>
                 walk_cond env' b \<and> R (walk_step env cls geom a) (walk_step env' cls' geom' b)"
    and stop: "\<And>a b. R a b \<Longrightarrow> \<not> walk_cond env a \<Longrightarrow> \<not> walk_cond env' b"
  shows "\<exists>w'. walk env' cls' geom' st' = Some w' \<and> R w w' \<and> \<not> walk_cond env w"
proof -
  let ?P = "\<lambda>e c g a y. e = env \<longrightarrow> c = cls \<longrightarrow> g = geom \<longrightarrow>
          (\<forall>b. R a b \<longrightarrow> (\<exists>w'. walk env' cls' geom' b = Some w' \<and> R y w' \<and> \<not> walk_cond env y))"
  have "?P env cls geom st w"
  proof (rule walk.raw_induct[where P = ?P, OF _ run])
    fix approx e c g a y
    assume IH: "\<And>e c g a y. approx e c g a = Some y \<Longrightarrow> ?P e c g a y"
      and body: "(if walk_cond e a then approx e c g (walk_step e c g a) else Some a) = Some y"
    show "?P e c g a y"
    proof (intro impI allI)
      fix b
      assume eq: "e = env" "c = cls" "g = geom" and r: "R a b"
      show "\<exists>w'. walk env' cls' geom' b = Some w' \<and> R y w' \<and> \<not> walk_cond env y"
      proof (cases "walk_cond env a")
        case True
        with body eq have "approx env cls geom (walk_step env cls geom a) = Some y" by simp
        from IH[OF this] step[OF r True]
        obtain w' where "walk env' cls' geom' (walk_step env' cls' geom' b) = Some w'"
          "R y w'" "\<not> walk_cond env y" by blast
        moreover have "walk env' cls' geom' b = walk env' cls' geom' (walk_step env' cls' geom' b)"
          using step[OF r True] by (subst walk.simps) simp
        ultimately show ?thesis by simp
      next
        case False
        with body eq have "y = a" by simp
        moreover have "walk env' cls' geom' b = Some b"
          using stop[OF r False] by (subst walk.simps) simp
        ultimately show ?thesis using r False by simp
      qed
    qed
  qed
  with rel show ?thesis by blast
qed

lemma walk_invariant:
  assumes run: "walk env cls geom st = Some w"
    and init: "I st"
    and step: "\<And>a. I a \<Longrightarrow> walk_cond env a \<Longrightarrow> I (walk_step env cls geom a)"
  shows "I w \<and> \<not> walk_cond env w"
proof -
  have "\<exists>w'. walk env cls geom st = Some w' \<and> (I w \<and> w' = w) \<and> \<not> walk_cond env w"
    by (rule walk_simulation[OF run, where R = "\<lambda>a b. I a \<and> b = a"])
       (use init step in auto)
  then show ?thesis by blast
qed

lemma aligned_step: "aligned st \<Longrightarrow> aligned (walk_step env cls geom st)"
  by (auto simp: aligned_def walk_step_def Let_def split: prod.splits)

lemma sample_walk_cases:
  assumes "sample_walk env s = Some w"
  obtains cls i calls where
    "walk env cls (geometry s)
       \<lparr>w_integrator = i, w_angles = [], w_radii = [], w_intensities = [],
        w_sector_areas = [], w_total_points = 0,
        w_radius = initial_polar_radius (geometry s),
        w_phi = initial_polar_angle (geometry s), w_calls = calls\<rparr> = Some w"
  using assms by (auto simp: sample_walk_def Let_def split: if_splits)

lemma sample_walk_aligned:
  assumes "sample_walk env s = Some w"
  shows "aligned w"
proof -
  from assms obtain cls i calls where
    run: "walk env cls (geometry s)
       \<lparr>w_integrator = i, w_angles = [], w_radii = [], w_intensities = [],
        w_sector_areas = [], w_total_points = 0,
        w_radius = initial_polar_radius (geometry s),
        w_phi = initial_polar_angle (geometry s), w_calls = calls\<rparr> = Some w"
    by (rule sample_walk_cases)
  have "aligned w \<and> \<not> walk_cond env w"
    by (rule walk_invariant[OF run]) (simp_all add: aligned_def aligned_step[unfolded aligned_def])
  then show ?thesis by simp
qed

lemma mask_and_clip_ok:
  assumes "length angles = length intensities" "length radii = length intensities"
  shows "\<exists>a r v. mask_and_clip sc nc angles radii intensities = Inr (a, r, v)
           \<and> length a = length v \<and> length r = length v
           \<and> length v \<le> length (filter isfinite intensities)
           \<and> (nc \<le> 0 \<longrightarrow> v = filter isfinite intensities)"
proof -
  from nan_masking_ok[OF assms] obtain a r v where
    m: "nan_masking angles radii intensities = Inr (a, r, v)"
       "length a = length (filter isfinite intensities)"
       "length r = length (filter isfinite intensities)"
       "length v = length (filter isfinite intensities)"
       "v = filter isfinite intensities" by blast
  then have l: "length a = length v" "length r = length v" by simp_all
  from sigma_clip_ok[OF l, of sc nc] obtain a' r' v' where
    c: "sigma_clip sc nc a r v = Inr (a', r', v')" "length a' = length v'"
       "length r' = length v'" "length v' \<le> length v" by blast
  have "nc \<le> 0 \<longrightarrow> v' = v" using c(1) by (auto simp: sigma_clip_def)
  with m c show ?thesis by (simp add: mask_and_clip_def)
qed

lemma extract'_result:
  assumes "Sample_extract' env s = Some r"
  shows "\<exists>w a rd v. sample_walk env s = Some w
          \<and> mask_and_clip (sclip s) (nclip s) (w_angles w) (w_radii w) (w_intensities w)
              = Inr (a, rd, v)
          \<and> r = Inr ((a, rd, v),
                s\<lparr>total_points := w_total_points w,
                  sector_area := Some (np_mean (w_sector_areas w)),
                  actual_points := length a\<rparr>, w_calls w)
          \<and> length (w_intensities w) = w_total_points w
          \<and> length a = length v \<and> length rd = length v
          \<and> length v \<le> length (filter isfinite (w_intensities w))
          \<and> (nclip s \<le> 0 \<longrightarrow> v = filter isfinite (w_intensities w))"
proof -
  from assms obtain w where w: "sample_walk env s = Some w"
    by (auto simp: Sample_extract'_def split: option.splits)
  from sample_walk_aligned[OF w] have al: "length (w_angles w) = length (w_intensities w)"
    "length (w_radii w) = length (w_intensities w)" "length (w_intensities w) = w_total_points w"
    by (simp_all add: aligned_def)
  from mask_and_clip_ok[OF al(1,2), of "sclip s" "nclip s"] obtain a rd v where
    "mask_and_clip (sclip s) (nclip s) (w_angles w) (w_radii w) (w_intensities w) = Inr (a, rd, v)"
    "length a = length v" "length rd = length v"
    "length v \<le> length (filter isfinite (w_intensities w))"
    "nclip s \<le> 0 \<longrightarrow> v = filter isfinite (w_intensities w)" by blast
  with assms w al(3) show ?thesis
    by (auto simp: Sample_extract'_def)
qed

section \<open>Running the test collaborators\<close>

lemmas stub_defs = stub_sample_def stub_env_def stub_integrators_def stub_integrator_def
  stub_image_def Sample_init_def Geometry_init_def

lemmas walk_eval = sample_walk_def walk.simps walk_cond_def walk_step_def np_pi_def py_min_def Let_def

lemma stub_walk_half_lit:
  "\<exists>w. sample_walk (stub_env half_lit (Fin (1/4))) (stub_sample half_lit (Fin (1/4)) 0 BI_LINEAR)
     = Some w \<and> w_intensities w =
         [Fin 10, Fin 10, Fin 10, Fin 10, Fin 10, Fin 10, NaN, NaN, NaN, NaN, NaN, NaN, NaN]"
  by (simp add: stub_defs walk_eval half_lit_def)

lemma init_geometry:
  "geometry (Sample_init (stub_env f phi0) img a x y st e p sc nc lg im None) =
     \<lparr>x0 = fst (center x y img), y0 = snd (center x y img), sma = a, eps = e, pa = p,
      astep = st, linear_growth = lg, initial_polar_radius = a, initial_polar_angle = phi0\<rparr>"
  by (simp add: Sample_init_def Geometry_init_def stub_env_def split: prod.splits)

lemma stub_walk:
  "sample_walk (stub_env f (Fin (1/4)))
     (Sample_init (stub_env f (Fin (1/4))) img a x y st e p sc nc lg BI_LINEAR None) =
   Some \<lparr>w_integrator = 13, w_angles = stub_angles, w_radii = replicate 13 a,
     w_intensities = map (f a) stub_angles, w_sector_areas = replicate 13 (Fin 1),
     w_total_points = 13, w_radius = a, w_phi = Fin (27/4),
     w_calls = map (Pair a) stub_angles\<rparr>"
proof -
  have i: "integrmode (Sample_init (stub_env f (Fin (1/4))) img a x y st e p sc nc lg BI_LINEAR None)
     = BI_LINEAR" by (simp add: Sample_init_def)
  show ?thesis
    unfolding sample_walk_def init_geometry i
    by (simp add: stub_env_def stub_integrators_def stub_integrator_def walk.simps walk_cond_def
        walk_step_def np_pi_def py_min_def Let_def stub_angles_def eval_nat_numeral)
qed

section \<open>What an extraction returns\<close>

lemma extract_of_walk:
  assumes "values' s = None" and "sample_walk env s = Some w"
  shows "\<exists>a rd v. mask_and_clip (sclip s) (nclip s) (w_angles w) (w_radii w) (w_intensities w)
              = Inr (a, rd, v)
          \<and> Sample_extract env s = Some (Inr ((a, rd, v),
                s\<lparr>total_points := w_total_points w,
                  sector_area := Some (np_mean (w_sector_areas w)),
                  actual_points := length a, values' := Some (a, rd, v)\<rparr>, w_calls w))
          \<and> length a = length v \<and> length rd = length v"
proof -
  from sample_walk_aligned[OF assms(2)] have "length (w_angles w) = length (w_intensities w)"
    "length (w_radii w) = length (w_intensities w)" by (simp_all add: aligned_def)
  from mask_and_clip_ok[OF this, of "sclip s" "nclip s"] assms show ?thesis
    by (auto simp: Sample_extract_def Sample_extract'_def)
qed

lemma extract_no_raise: "Sample_extract env s \<noteq> Some (Inl e)"
proof (cases "values' s")
  case None
  show ?thesis
  proof (cases "sample_walk env s")
    case N: None
    with None show ?thesis by (simp add: Sample_extract_def Sample_extract'_def)
  next
    case (Some w)
    from extract_of_walk[OF None Some] show ?thesis by auto
  qed
next
  case (Some t)
  then show ?thesis by (simp add: Sample_extract_def)
qed

lemma extract_rows:
  assumes "values' s = None" and "Sample_extract env s = Some (Inr (t, s1, calls))"
  shows "length (row0 t) = length (row2 t) \<and> length (row1 t) = length (row2 t)
         \<and> values' s1 = Some t \<and> geometry s1 = geometry s"
proof -
  from assms obtain w where w: "sample_walk env s = Some w"
    by (auto simp: Sample_extract_def Sample_extract'_def split: option.splits)
  from extract_of_walk[OF assms(1) w] assms(2) show ?thesis
    by (auto simp: row0_def row1_def row2_def)
qed


lemma extract_fresh:
  assumes "values' s = None" and "sample_walk env s = Some w"
    and "mask_and_clip (sclip s) (nclip s) (w_angles w) (w_radii w) (w_intensities w) = Inr t"
  shows "Sample_extract env s = Some (Inr (t,
           s\<lparr>total_points := w_total_points w,
             sector_area := Some (np_mean (w_sector_areas w)),
             actual_points := length (row0 t), values' := Some t\<rparr>, w_calls w))"
  using assms by (cases t) (simp add: Sample_extract_def Sample_extract'_def row0_def)

lemma mask_and_clip_all_finite:
  assumes "length as = length vs" "length rs = length vs" "\<forall>v\<in>set vs. isfinite v" "nc \<le> 0"
  shows "mask_and_clip sc nc as rs vs = Inr (as, rs, vs)"
proof -
  have m: "map fst (filter snd (zip xs (map isfinite vs))) = xs" if "length xs = length vs" for xs :: "npfloat list"
    using that assms(3)
  proof (induction xs arbitrary: vs)
    case Nil
    then show ?case by simp
  next
    case (Cons x xs)
    then obtain v vs' where "vs = v # vs'" by (cases vs) auto
    with Cons show ?case by simp
  qed
  show ?thesis
    using assms m[of as] m[of rs] m[of vs]
    by (simp add: mask_and_clip_def nan_masking_def mask_index3_def mask_index_def sigma_clip_def)
qed

section \<open>The coordinates of the cached points\<close>

lemma coordinates_loop_ok:
  assumes "\<forall>i\<in>set idx. i < length rs \<and> i < length as"
  shows "coordinates_loop g as rs idx =
     Inr (map (\<lambda>i. fadd (fmul (rs ! i) (fcos (fadd (as ! i) (pa g)))) (x0 g)) idx,
          map (\<lambda>i. fadd (fmul (rs ! i) (fsin (fadd (as ! i) (pa g)))) (y0 g)) idx)"
  using assms by (induction idx) simp_all

lemma circle_distance:
  fixes r :: real
  assumes "0 \<le> r"
  shows "sqrt ((r * cos u + cx - cx)\<^sup>2 + (r * sin u + cy - cy)\<^sup>2) = r"
proof -
  have "(r * cos u)\<^sup>2 + (r * sin u)\<^sup>2 = r\<^sup>2 * ((cos u)\<^sup>2 + (sin u)\<^sup>2)"
    by (simp only: power_mult_distrib distrib_left)
  also have "\<dots> = r\<^sup>2" by (simp only: sin_cos_squared_add2 mult_1_right)
  finally have "sqrt ((r * cos u)\<^sup>2 + (r * sin u)\<^sup>2) = sqrt (r\<^sup>2)"
    by (rule arg_cong)
  with assms show ?thesis by simp
qed

section \<open>The probe call in the record of the calls\<close>

lemma walk_cond_calls: "walk_cond env (a\<lparr>w_calls := cs\<rparr>) = walk_cond env a"
  by (simp add: walk_cond_def)

lemma walk_step_calls:
  "walk_step env cls geom (a\<lparr>w_calls := c # w_calls a\<rparr>) =
     (walk_step env cls geom a)\<lparr>w_calls := c # w_calls (walk_step env cls geom a)\<rparr>"
  by (simp add: walk_step_def Let_def split: prod.splits)

lemma walk_calls_prefix:
  "walk env cls geom (st\<lparr>w_calls := c # w_calls st\<rparr>) =
     map_option (\<lambda>w. w\<lparr>w_calls := c # w_calls w\<rparr>) (walk env cls geom st)"
proof (cases "walk env cls geom st")
  case None
  show ?thesis
  proof (cases "walk env cls geom (st\<lparr>w_calls := c # w_calls st\<rparr>)")
    case N: None
    with None show ?thesis by simp
  next
    case (Some w')
    have "\<exists>w. walk env cls geom st = Some w \<and> w' = w\<lparr>w_calls := c # w_calls w\<rparr>
            \<and> \<not> walk_cond env w'"
      by (rule walk_simulation[OF Some, where R = "\<lambda>a b. a = b\<lparr>w_calls := c # w_calls b\<rparr>"])
         (simp_all add: walk_cond_calls walk_step_calls)
    with None show ?thesis by simp
  qed
next
  case (Some w)
  have "\<exists>w'. walk env cls geom (st\<lparr>w_calls := c # w_calls st\<rparr>) = Some w'
          \<and> w' = w\<lparr>w_calls := c # w_calls w\<rparr> \<and> \<not> walk_cond env w"
    by (rule walk_simulation[OF Some, where R = "\<lambda>a b. b = a\<lparr>w_calls := c # w_calls a\<rparr>"])
       (simp_all add: walk_cond_calls walk_step_calls)
  with Some show ?thesis by simp
qed

lemma sample_walk_probe:
  assumes "area_sensitive env s"
  shows "sample_walk env s =
     map_option (log_probe s)
       (fresh_walk env
          (if flt (probe_area env s) (Fin 1) then integrators env BI_LINEAR
           else integrators env (integrmode s)) s)"
proof -
  have "walk env cls (geometry s)
       \<lparr>w_integrator = i, w_angles = [], w_radii = [],
        w_intensities = [], w_sector_areas = [], w_total_points = 0,
        w_radius = initial_polar_radius (geometry s),
        w_phi = initial_polar_angle (geometry s),
        w_calls = [(initial_polar_radius (geometry s), initial_polar_angle (geometry s))]\<rparr>
     = map_option (log_probe s) (walk env cls (geometry s)
       \<lparr>w_integrator = i, w_angles = [], w_radii = [],
        w_intensities = [], w_sector_areas = [], w_total_points = 0,
        w_radius = initial_polar_radius (geometry s),
        w_phi = initial_polar_angle (geometry s), w_calls = []\<rparr>)" for cls i
    using walk_calls_prefix[where env = env and cls = cls and geom = "geometry s" and st = "\<lparr>w_integrator = i, w_angles = [], w_radii = [],
        w_intensities = [], w_sector_areas = [], w_total_points = 0,
        w_radius = initial_polar_radius (geometry s),
        w_phi = initial_polar_angle (geometry s), w_calls = []\<rparr>"
        and c = "(initial_polar_radius (geometry s), initial_polar_angle (geometry s))"]
    by (simp add: log_probe_def[abs_def])
  with assms show ?thesis
    by (simp add: sample_walk_def area_sensitive_def probe_area_def fresh_walk_def Let_def)
qed

lemma sample_walk_plain:
  assumes "\<not> area_sensitive env s"
  shows "sample_walk env s = fresh_walk env (integrators env (integrmode s)) s"
  using assms by (simp add: sample_walk_def area_sensitive_def fresh_walk_def Let_def)

section \<open>NaN propagates\<close>

lemma fadd_NaN [simp]: "fadd x NaN = NaN" "fadd NaN x = NaN"
  by (cases x; simp)+

lemma fsub_NaN [simp]: "fsub x NaN = NaN" "fsub NaN x = NaN"
  by (simp_all add: fsub_def)

lemma fmul_NaN [simp]: "fmul x NaN = NaN" "fmul NaN x = NaN"
  by (cases x; simp)+

lemma fdiv_NaN [simp]: "fdiv x NaN = NaN" "fdiv NaN x = NaN"
  by (cases x; simp)+

lemma fle_NaN [simp]: "fle x NaN = False" "fle NaN x = False"
  by (cases x; simp)+

lemma fge_NaN [simp]: "fge x NaN = False" "fge NaN x = False"
  by (simp_all add: fge_def)

lemma np_mean_Nil [simp]: "np_mean [] = NaN"
  by (simp add: np_mean_def np_sum_def inf_of_sign_def)

lemma np_std_Nil [simp]: "np_std [] = NaN"
  by (simp add: np_std_def)

section \<open>The gradient of a Sample with cached values\<close>

lemma extract_preserves:
  assumes "Sample_extract env s = Some (Inr (t, s1, calls))"
  shows "values' s1 = Some t \<and> geometry s1 = geometry s \<and> image' s1 = image' s
         \<and> sclip s1 = sclip s \<and> nclip s1 = nclip s \<and> integrmode s1 = integrmode s
         \<and> gradient s1 = gradient s \<and> mean s1 = mean s"
proof (cases "values' s")
  case None
  with assms obtain r' where r': "Sample_extract' env s = Some r'"
    by (auto simp: Sample_extract_def split: option.splits)
  from extract'_result[OF r'] assms None r' show ?thesis
    by (auto simp: Sample_extract_def)
next
  case (Some t0)
  with assms show ?thesis by (auto simp: Sample_extract_def)
qed

lemma gradient_sample_cong:
  assumes "geometry s' = geometry s" "image' s' = image' s" "sclip s' = sclip s"
    "nclip s' = nclip s" "integrmode s' = integrmode s"
  shows "gradient_sample env s' step = gradient_sample env s step"
  using assms by (simp add: gradient_sample_def)

lemma extract_cached_eq: "values' s = Some t \<Longrightarrow> Sample_extract env s = Some (Inr (t, s, []))"
  by (simp add: Sample_extract_def)

lemma extract_returns:
  assumes "Sample_extract env s \<noteq> None"
  obtains t s1 calls where "Sample_extract env s = Some (Inr (t, s1, calls))"
proof -
  from assms obtain r where r: "Sample_extract env s = Some r" by auto
  with extract_no_raise[of env s] obtain x where "r = Inr x" by (cases r) auto
  with r that show ?thesis by (cases x) auto
qed

text \<open>The result of \<open>_get_gradient\<close> on a Sample with cached values and a recorded mean.\<close>

lemma get_gradient_cached:
  assumes v: "values' s = Some t" and m: "mean s = Some mu"
    and g: "Sample_extract env (gradient_sample env s step) = Some (Inr (sg, gs, cg))"
  shows "Sample_get_gradient env s step =
     Some (Inr (fdiv (fdiv (fsub (np_mean (row2 sg)) mu) (sma (geometry s))) step,
       fdiv (fdiv
         (fsqrt (fadd
            (fdiv (fmul (np_std (row2 t)) (np_std (row2 t))) (Fin (real (length (row2 t)))))
            (fdiv (fmul (np_std (row2 sg)) (np_std (row2 sg)))
               (Fin (real (length (row2 sg)))))))
         (sma (geometry s))) step,
       s))"
  using extract_cached_eq[OF v, of env] m g
  by (simp add: Sample_get_gradient_def Let_def)

lemma stub_extract_returns:
  "Sample_extract (stub_env f (Fin (1/4)))
     (Sample_init (stub_env f (Fin (1/4))) img a x y st e p sc nc lg BI_LINEAR None) \<noteq> None"
proof -
  have "values' (Sample_init (stub_env f (Fin (1/4))) img a x y st e p sc nc lg BI_LINEAR None) = None"
    by (simp add: Sample_init_def)
  from extract_of_walk[OF this stub_walk] show ?thesis by auto
qed

lemma mask_and_clip_none_finite:
  assumes "length as = length vs" "length rs = length vs" "\<forall>v\<in>set vs. \<not> isfinite v" "nc \<le> 0"
  shows "mask_and_clip sc nc as rs vs = Inr ([], [], [])"
proof -
  have m: "map fst (filter snd (zip xs (map isfinite vs))) = []" if "length xs = length vs"
    for xs :: "npfloat list"
    using that assms(3)
  proof (induction xs arbitrary: vs)
    case Nil
    then show ?case by simp
  next
    case (Cons x xs)
    then obtain v vs' where "vs = v # vs'" by (cases vs) auto
    with Cons show ?case by simp
  qed
  show ?thesis
    using assms m[of as] m[of rs] m[of vs]
    by (simp add: mask_and_clip_def nan_masking_def mask_index3_def mask_index_def sigma_clip_def)
qed

section \<open>Constant intensities\<close>

lemma foldl_fadd_replicate:
  "foldl fadd (Fin a) (replicate n (Fin c)) = Fin (a + real n * c)"
  by (induction n arbitrary: a) (simp_all add: algebra_simps)

lemma np_mean_replicate:
  "0 < n \<Longrightarrow> np_mean (replicate n (Fin c)) = Fin c"
  by (simp add: np_mean_def np_sum_def foldl_fadd_replicate)

lemma np_std_replicate:
  "0 < n \<Longrightarrow> np_std (replicate n (Fin c)) = Fin 0"
  by (simp add: np_std_def np_mean_replicate fsub_def)

lemma filter_replicate_Fin: "filter (\<lambda>x. \<not> isnan x) (replicate n (Fin c)) = replicate n (Fin c)"
  by (induction n) simp_all

lemma mask_index_all_True:
  "length xs = n \<Longrightarrow> mask_index xs (replicate n True) = Inr xs"
proof (induction xs arbitrary: n)
  case Nil
  then show ?case by (simp add: mask_index_def)
next
  case (Cons x xs)
  then obtain m where "n = Suc m" by (cases n) auto
  with Cons show ?case by (simp add: mask_index_def)
qed

lemma iter_sigma_clip_constant:
  assumes "length as = n" "length rs = n"
  shows "iter_sigma_clip (Fin k) as rs (replicate n (Fin c)) = Inr (as, rs, replicate n (Fin c))"
proof (cases "n = 0")
  case True
  with assms show ?thesis
    by (simp add: iter_sigma_clip_def mask_index3_def mask_index_def)
next
  case False
  then have n: "0 < n" by simp
  have "map (\<lambda>x. fge x (Fin c) \<and> fle x (Fin c)) (replicate n (Fin c)) = replicate n True"
    by (simp add: fge_def)
  with assms n show ?thesis
    by (simp add: iter_sigma_clip_def np_nanmean_def np_nanstd_def filter_replicate_Fin
        np_mean_replicate np_std_replicate fsub_def mask_index3_def mask_index_all_True)
qed

lemma clip_loop_constant:
  assumes "length as = n" "length rs = n"
  shows "clip_loop j (Fin k) (as, rs, replicate n (Fin c)) = Inr (as, rs, replicate n (Fin c))"
  using assms by (induction j) (simp_all add: iter_sigma_clip_constant)

lemma mask_and_clip_constant:
  assumes "length as = n" "length rs = n"
  shows "mask_and_clip (Fin k) nc as rs (replicate n (Fin c)) = Inr (as, rs, replicate n (Fin c))"
proof -
  have "mask_and_clip (Fin k) 0 as rs (replicate n (Fin c)) = Inr (as, rs, replicate n (Fin c))"
    by (rule mask_and_clip_all_finite) (use assms in simp_all)
  then have "nan_masking as rs (replicate n (Fin c)) = Inr (as, rs, replicate n (Fin c))"
    by (simp add: mask_and_clip_def sigma_clip_def split: sum.splits)
  with assms show ?thesis
    by (simp add: mask_and_clip_def sigma_clip_def clip_loop_constant)
qed






subsection \<open>Constant intensities on the test collaborators\<close>


lemma stub_extract_constant:
  assumes "\<And>phi. f a phi = Fin c"
  shows "\<exists>s1. Sample_extract (stub_env f (Fin (1/4)))
       (Sample_init (stub_env f (Fin (1/4))) img a x y st e p (Fin k) nc lg BI_LINEAR None) =
     Some (Inr ((stub_angles, replicate 13 a, replicate 13 (Fin c)), s1,
       map (Pair a) stub_angles))"
proof -
  let ?s = "Sample_init (stub_env f (Fin (1/4))) img a x y st e p (Fin k) nc lg BI_LINEAR None"
  let ?w = "\<lparr>w_integrator = 13, w_angles = stub_angles, w_radii = replicate 13 a,
     w_intensities = map (f a) stub_angles, w_sector_areas = replicate 13 (Fin 1),
     w_total_points = 13, w_radius = a, w_phi = Fin (27/4),
     w_calls = map (Pair a) stub_angles\<rparr> :: nat walk_state"
  have v: "values' ?s = None" and sc: "sclip ?s = Fin k" and nc: "nclip ?s = nc"
    by (simp_all add: Sample_init_def)
  have i: "map (f a) stub_angles = replicate 13 (Fin c)"
    by (simp add: assms stub_angles_def eval_nat_numeral)
  have "mask_and_clip (Fin k) nc stub_angles (replicate 13 a) (replicate 13 (Fin c))
      = Inr (stub_angles, replicate 13 a, replicate 13 (Fin c))"
    by (rule mask_and_clip_constant) (simp_all add: stub_angles_def)
  then have m: "mask_and_clip (sclip ?s) (nclip ?s) (w_angles ?w) (w_radii ?w) (w_intensities ?w)
      = Inr (stub_angles, replicate 13 a, replicate 13 (Fin c))"
    by (simp add: sc nc i)
  from extract_fresh[OF v stub_walk m] show ?thesis by simp
qed

subsection \<open>Candidates that are not a number\<close>






section \<open>The claims\<close>

text \<open>
  Claim C4. For every raw (angle, radius, intensity) series (three lists of one length) and
  every fixed \<open>sclip\<close>, the number of actual points that the masking-and-clipping pipeline
  produces does not grow with \<open>nclip\<close>: for every \<open>n \<ge> 0\<close> the pipeline run with \<open>nclip = n + 1\<close> and with
  \<open>nclip = n\<close> both produce a count, and the first count is at most the second.
\<close>

theorem nclip_monotone:
  assumes "length angles = length intensities" "length radii = length intensities"
  shows "\<exists>p p'. pipeline_points sc (int n) angles radii intensities = Inr p
               \<and> pipeline_points sc (int n + 1) angles radii intensities = Inr p'
               \<and> p' \<le> p"
proof -
  from nan_masking_ok[OF assms] obtain a r v where
    m: "nan_masking angles radii intensities = Inr (a, r, v)"
       "length a = length (filter isfinite intensities)"
       "length r = length (filter isfinite intensities)"
       "length v = length (filter isfinite intensities)" by blast
  then have "length a = length v" "length r = length v" by simp_all
  from sigma_clip_step[OF this, of sc n] m(1) show ?thesis
    by (auto simp: pipeline_points_def mask_and_clip_def)
qed

theorem nclip_monotone_witness:
  "length [Fin 0, Fin 1, Fin 2, Fin 3] = length [Fin 1, NaN, Fin 2, Fin 100]
   \<and> length [Fin 5, Fin 5, Fin 5, Fin 5] = length [Fin 1, NaN, Fin 2, Fin 100]
   \<and> (\<exists>p p'.
         pipeline_points (Fin 1) (int 1) [Fin 0, Fin 1, Fin 2, Fin 3] [Fin 5, Fin 5, Fin 5, Fin 5]
           [Fin 1, NaN, Fin 2, Fin 100] = Inr p
       \<and> pipeline_points (Fin 1) (int 1 + 1) [Fin 0, Fin 1, Fin 2, Fin 3]
           [Fin 5, Fin 5, Fin 5, Fin 5] [Fin 1, NaN, Fin 2, Fin 100] = Inr p'
       \<and> p' \<le> p)"
  using nclip_monotone [of "[Fin 0, Fin 1, Fin 2, Fin 3]" "[Fin 1, NaN, Fin 2, Fin 100]"
      "[Fin 5, Fin 5, Fin 5, Fin 5]" "Fin 1" 1]
  by simp

text \<open>
  Claim C1. For a Sample with \<open>nclip = 0\<close> and no cached values, once \<open>extract\<close> has
  returned: the walk has ended, \<open>total_points\<close> is the number of attempted positions (one
  intensity each), \<open>actual_points\<close> is the number of those intensities that are finite
  and is at most \<open>total_points\<close>, and the three series of the cached values all have
  length \<open>actual_points\<close>.
\<close>

theorem extract_nclip0:
  assumes "values' s = None" and "nclip s = 0" and "Sample_extract env s = Some r"
  shows "\<exists>w t s1 calls. sample_walk env s = Some w \<and> r = Inr (t, s1, calls)
           \<and> total_points s1 = length (w_intensities w)
           \<and> actual_points s1 = length (filter isfinite (w_intensities w))
           \<and> actual_points s1 \<le> total_points s1
           \<and> values' s1 = Some t
           \<and> length (row0 t) = actual_points s1
           \<and> length (row1 t) = actual_points s1
           \<and> length (row2 t) = actual_points s1"
proof -
  from assms(1,3) obtain r' where r': "Sample_extract' env s = Some r'"
    by (auto simp: Sample_extract_def split: option.splits)
  from extract'_result[OF r'] assms(2) obtain w a rd v where
    h: "sample_walk env s = Some w"
       "r' = Inr ((a, rd, v),
                s\<lparr>total_points := w_total_points w,
                  sector_area := Some (np_mean (w_sector_areas w)),
                  actual_points := length a\<rparr>, w_calls w)"
       "length (w_intensities w) = w_total_points w"
       "length a = length v" "length rd = length v"
       "v = filter isfinite (w_intensities w)"
    by auto
  have "length (filter isfinite (w_intensities w)) \<le> length (w_intensities w)"
    by (rule length_filter_le)
  with assms(1,3) r' h show ?thesis
    by (auto simp: Sample_extract_def row0_def row1_def row2_def)
qed

theorem extract_nclip0_witness:
  "values' (stub_sample half_lit (Fin (1/4)) 0 BI_LINEAR) = None
   \<and> nclip (stub_sample half_lit (Fin (1/4)) 0 BI_LINEAR) = 0
   \<and> (\<exists>t s1 calls.
        Sample_extract (stub_env half_lit (Fin (1/4))) (stub_sample half_lit (Fin (1/4)) 0 BI_LINEAR)
          = Some (Inr (t, s1, calls))
        \<and> total_points s1 = 13 \<and> actual_points s1 = 6 \<and> values' s1 = Some t
        \<and> length (row0 t) = 6 \<and> length (row1 t) = 6 \<and> length (row2 t) = 6)"
proof -
  let ?env = "stub_env half_lit (Fin (1/4))"
  let ?s = "stub_sample half_lit (Fin (1/4)) 0 BI_LINEAR"
  have v: "values' ?s = None" and n: "nclip ?s = 0" by (simp_all add: stub_defs)
  from stub_walk_half_lit obtain w0 where w0: "sample_walk ?env ?s = Some w0"
    "w_intensities w0 = [Fin 10, Fin 10, Fin 10, Fin 10, Fin 10, Fin 10, NaN, NaN, NaN, NaN, NaN, NaN, NaN]"
    by blast
  have "\<exists>r. Sample_extract ?env ?s = Some r"
  proof -
    from sample_walk_aligned[OF w0(1)] have "length (w_angles w0) = length (w_intensities w0)"
      "length (w_radii w0) = length (w_intensities w0)" by (simp_all add: aligned_def)
    from mask_and_clip_ok[OF this, of "sclip ?s" "nclip ?s"] w0(1) v show ?thesis
      by (auto simp: Sample_extract_def Sample_extract'_def)
  qed
  then obtain r where r: "Sample_extract ?env ?s = Some r" by blast
  from extract_nclip0[OF v n r] w0 r show ?thesis
    using v n by auto
qed

text \<open>
  Claim C8, as the specification states it: on a Sample whose cache has not been
  populated, \<open>coordinates\<close> fails with an explicit, descriptive PreconditionError. The
  code has no such check: on a freshly constructed Sample the call fails with the
  TypeError that subscripting \<^verbatim>\<open>None\<close> raises, which is not a PreconditionError.
\<close>

theorem coordinates_error_is_type_error:
  "Sample_coordinates (stub_sample half_lit (Fin (1/4)) 0 MEAN) = Inl TypeError
   \<and> Sample_coordinates (stub_sample half_lit (Fin (1/4)) 0 MEAN) \<noteq> Inl PreconditionError"
  by (simp add: Sample_coordinates_def stub_sample_def Sample_init_def)

text \<open>
  Claim C8, amended. On a Sample whose cache has not been populated, \<open>coordinates\<close>
  returns no coordinates: it fails at once, with the TypeError that subscripting
  \<^verbatim>\<open>None\<close> raises and not with an error of its own.
\<close>

theorem coordinates_before_extract:
  "values' s = None \<Longrightarrow> Sample_coordinates s = Inl TypeError"
  by (simp add: Sample_coordinates_def)

theorem coordinates_before_extract_witness:
  "values' (stub_sample flat10 (Fin (1/4)) 0 BI_LINEAR) = None
   \<and> Sample_coordinates (stub_sample flat10 (Fin (1/4)) 0 BI_LINEAR) = Inl TypeError"
  using coordinates_before_extract [of "stub_sample flat10 (Fin (1/4)) 0 BI_LINEAR"]
  by (simp add: stub_defs)

text \<open>
  Claim C7. Once \<open>extract\<close> has returned values, a second call on the resulting Sample
  returns the same values, leaves the Sample as it is and makes no \<open>integrate\<close> call.
\<close>

theorem extract_cached:
  assumes "Sample_extract env s = Some (Inr (t, s1, calls))"
  shows "Sample_extract env s1 = Some (Inr (t, s1, []))"
proof (cases "values' s")
  case None
  with assms obtain s0 where "Sample_extract' env s = Some (Inr (t, s0, calls))"
    and "s1 = s0\<lparr>values' := Some t\<rparr>"
    by (auto simp: Sample_extract_def split: option.splits sum.splits)
  then show ?thesis by (simp add: Sample_extract_def)
next
  case (Some t0)
  with assms show ?thesis by (auto simp: Sample_extract_def)
qed

theorem extract_cached_witness:
  "\<exists>t s1 calls.
     Sample_extract (stub_env flat10 (Fin (1/4))) (stub_sample flat10 (Fin (1/4)) 0 BI_LINEAR)
       = Some (Inr (t, s1, calls))
     \<and> length calls = 13
     \<and> Sample_extract (stub_env flat10 (Fin (1/4))) s1 = Some (Inr (t, s1, []))"
proof -
  let ?env = "stub_env flat10 (Fin (1/4))"
  let ?s = "stub_sample flat10 (Fin (1/4)) 0 BI_LINEAR"
  have v: "values' ?s = None" by (simp add: stub_defs)
  have w: "sample_walk ?env ?s = Some \<lparr>w_integrator = 13, w_angles = stub_angles,
     w_radii = replicate 13 (Fin 10),
     w_intensities = map (flat10 (Fin 10)) stub_angles, w_sector_areas = replicate 13 (Fin 1),
     w_total_points = 13, w_radius = Fin 10, w_phi = Fin (27/4),
     w_calls = map (Pair (Fin 10)) stub_angles\<rparr>"
    unfolding stub_sample_def by (rule stub_walk)
  from extract_of_walk[OF v w] obtain t s1 where
    e: "Sample_extract ?env ?s = Some (Inr (t, s1, map (Pair (Fin 10)) stub_angles))"
    by auto
  have "length (map (Pair (Fin 10)) stub_angles) = 13" by (simp add: stub_angles_def)
  with extract_cached[OF e] e show ?thesis
    by (intro exI[of _ t] exI[of _ s1] exI[of _ "map (Pair (Fin 10)) stub_angles"] conjI)
      assumption+
qed



text \<open>
  Claim C5. For a Sample whose cache \<open>extract\<close> has populated, and every surviving point
  \<open>i\<close> with finite angle and finite radius \<open>r \<ge> 0\<close> (center and position angle finite):
  \<open>coordinates\<close> returns \<open>x = r cos (angle + pa) + x0\<close> and
  \<open>y = r sin (angle + pa) + y0\<close> at index \<open>i\<close>, and the Euclidean distance from
  \<open>(x0, y0)\<close> to \<open>(x, y)\<close> is \<open>r\<close> (in exact real arithmetic).
\<close>

theorem coordinates_distance:
  assumes fresh: "values' s0 = None"
    and ext: "Sample_extract env s0 = Some (Inr (t, s, calls))"
    and i: "i < length (row0 t)"
    and point: "row0 t ! i = Fin a" "row1 t ! i = Fin r" "0 \<le> r"
    and geom: "pa (geometry s) = Fin p" "x0 (geometry s) = Fin cx" "y0 (geometry s) = Fin cy"
  shows "\<exists>xs ys x y. Sample_coordinates s = Inr (xs, ys)
           \<and> length xs = length (row0 t) \<and> length ys = length (row0 t)
           \<and> xs ! i = Fin x \<and> ys ! i = Fin y
           \<and> x = r * cos (a + p) + cx \<and> y = r * sin (a + p) + cy
           \<and> sqrt ((x - cx)\<^sup>2 + (y - cy)\<^sup>2) = r"
proof -
  from extract_rows[OF fresh ext] have rows: "length (row0 t) = length (row2 t)"
    "length (row1 t) = length (row2 t)" and v: "values' s = Some t" by simp_all
  let ?fx = "\<lambda>i. fadd (fmul (row1 t ! i) (fcos (fadd (row0 t ! i) (pa (geometry s))))) (x0 (geometry s))"
  let ?fy = "\<lambda>i. fadd (fmul (row1 t ! i) (fsin (fadd (row0 t ! i) (pa (geometry s))))) (y0 (geometry s))"
  have "\<forall>j\<in>set [0..<length (row0 t)]. j < length (row1 t) \<and> j < length (row0 t)"
    using rows by simp
  from coordinates_loop_ok[OF this, of "geometry s"] v
  have c: "Sample_coordinates s =
      Inr (map ?fx [0..<length (row0 t)], map ?fy [0..<length (row0 t)])"
    by (simp add: Sample_coordinates_def)
  have x: "map ?fx [0..<length (row0 t)] ! i = Fin (r * cos (a + p) + cx)"
    and y: "map ?fy [0..<length (row0 t)] ! i = Fin (r * sin (a + p) + cy)"
    using i point geom by simp_all
  from circle_distance[OF point(3), of "a + p" cx cy] c x y show ?thesis by simp
qed

theorem coordinates_distance_witness:
  "\<exists>t s calls xs ys.
     values' (stub_sample flat10 (Fin (1/4)) 0 BI_LINEAR) = None
     \<and> Sample_extract (stub_env flat10 (Fin (1/4))) (stub_sample flat10 (Fin (1/4)) 0 BI_LINEAR)
          = Some (Inr (t, s, calls))
     \<and> 1 < length (row0 t) \<and> row0 t ! 1 = Fin (3/4) \<and> row1 t ! 1 = Fin 10 \<and> (0::real) \<le> 10
     \<and> pa (geometry s) = Fin 0 \<and> x0 (geometry s) = Fin 3 \<and> y0 (geometry s) = Fin 2
     \<and> Sample_coordinates s = Inr (xs, ys)
     \<and> xs ! 1 = Fin (10 * cos (3/4 + 0) + 3) \<and> ys ! 1 = Fin (10 * sin (3/4 + 0) + 2)
     \<and> sqrt ((10 * cos (3/4 + 0) + 3 - 3)\<^sup>2 + (10 * sin (3/4 + 0) + 2 - 2)\<^sup>2) = 10"
proof -
  let ?env = "stub_env flat10 (Fin (1/4))"
  let ?s = "stub_sample flat10 (Fin (1/4)) 0 BI_LINEAR"
  let ?t = "(stub_angles, replicate 13 (Fin 10), map (flat10 (Fin 10)) stub_angles)"
  have v: "values' ?s = None" and sc: "sclip ?s = Fin 3" and nc: "nclip ?s = 0"
    by (simp_all add: stub_sample_def Sample_init_def)
  have g: "geometry ?s = \<lparr>x0 = Fin 3, y0 = Fin 2, sma = Fin 10, eps = Fin 0, pa = Fin 0,
      astep = Fin (1/10), linear_growth = False, initial_polar_radius = Fin 10,
      initial_polar_angle = Fin (1/4)\<rparr>"
    unfolding stub_sample_def init_geometry by simp
  have w: "sample_walk ?env ?s = Some \<lparr>w_integrator = 13, w_angles = stub_angles,
     w_radii = replicate 13 (Fin 10),
     w_intensities = map (flat10 (Fin 10)) stub_angles, w_sector_areas = replicate 13 (Fin 1),
     w_total_points = 13, w_radius = Fin 10, w_phi = Fin (27/4),
     w_calls = map (Pair (Fin 10)) stub_angles\<rparr>"
    unfolding stub_sample_def by (rule stub_walk)
  have m: "mask_and_clip (Fin 3) 0 stub_angles (replicate 13 (Fin 10))
      (map (flat10 (Fin 10)) stub_angles) = Inr ?t"
    by (rule mask_and_clip_all_finite) (simp_all add: stub_angles_def flat10_def)
  from extract_fresh[OF v w] m sc nc obtain s where
    e: "Sample_extract ?env ?s = Some (Inr (?t, s, map (Pair (Fin 10)) stub_angles))"
    and gs: "geometry s = geometry ?s"
    by simp
  have i: "1 < length (row0 ?t)" and p: "row0 ?t ! 1 = Fin (3/4)" "row1 ?t ! 1 = Fin 10"
    by (simp_all add: row0_def row1_def stub_angles_def)
  have geo: "pa (geometry s) = Fin 0" "x0 (geometry s) = Fin 3" "y0 (geometry s) = Fin 2"
    by (simp_all add: gs g)
  have r: "(0::real) \<le> 10" by simp
  from coordinates_distance[OF v e i p r geo] obtain xs ys where
    "Sample_coordinates s = Inr (xs, ys)" "xs ! 1 = Fin (10 * cos (3/4 + 0) + 3)"
    "ys ! 1 = Fin (10 * sin (3/4 + 0) + 2)"
    "sqrt ((10 * cos (3/4 + 0) + 3 - 3)\<^sup>2 + (10 * sin (3/4 + 0) + 2 - 2)\<^sup>2) = 10"
    by blast
  with v e i p r geo show ?thesis by blast
qed

text \<open>
  Claim C2. For a Sample whose configured integrator is area-sensitive, the walk of
  \<open>extract\<close> is the walk of a new integrator on new output lists, preceded only by the
  record of one probe call at the initial radius and angle: nothing that the probe appended
  remains. The new integrator is the bi-linear one when the probe's sector area is below
  1.0, and the configured one otherwise. Consequently, when the probe's area is below 1.0
  (and the bi-linear integrator is not area-sensitive), \<open>extract\<close> returns what it returns
  for the same Sample in explicit bi-linear mode: the same values and the same Sample up to
  the mode, after the one probe call.
\<close>

theorem area_fallback:
  assumes "area_sensitive env s"
  shows "sample_walk env s =
           map_option (log_probe s)
             (fresh_walk env
                (if flt (probe_area env s) (Fin 1) then integrators env BI_LINEAR
                 else integrators env (integrmode s)) s)
       \<and> (flt (probe_area env s) (Fin 1) \<and> \<not> area_sensitive env (s\<lparr>integrmode := BI_LINEAR\<rparr>)
            \<and> values' s = None \<longrightarrow>
          Sample_extract env s =
            map_option (map_sum id (\<lambda>(t, s', calls).
                (t, s'\<lparr>integrmode := integrmode s\<rparr>,
                 (initial_polar_radius (geometry s), initial_polar_angle (geometry s)) # calls)))
              (Sample_extract env (s\<lparr>integrmode := BI_LINEAR\<rparr>)))"
proof (intro conjI impI)
  show w: "sample_walk env s =
           map_option (log_probe s)
             (fresh_walk env
                (if flt (probe_area env s) (Fin 1) then integrators env BI_LINEAR
                 else integrators env (integrmode s)) s)"
    by (rule sample_walk_probe[OF assms])
  assume h: "flt (probe_area env s) (Fin 1) \<and> \<not> area_sensitive env (s\<lparr>integrmode := BI_LINEAR\<rparr>)
            \<and> values' s = None"
  let ?b = "s\<lparr>integrmode := BI_LINEAR\<rparr>"
  have f: "fresh_walk env cls ?b = fresh_walk env cls s" for cls
    by (simp add: fresh_walk_def)
  from h have wb: "sample_walk env ?b = fresh_walk env (integrators env BI_LINEAR) s"
    using sample_walk_plain[of env ?b] f by simp
  from w h have wm: "sample_walk env s = map_option (log_probe s) (sample_walk env ?b)"
    using wb by simp
  show "Sample_extract env s =
            map_option (map_sum id (\<lambda>(t, s', calls).
                (t, s'\<lparr>integrmode := integrmode s\<rparr>,
                 (initial_polar_radius (geometry s), initial_polar_angle (geometry s)) # calls)))
              (Sample_extract env ?b)"
  proof (cases "sample_walk env ?b")
    case None
    with wm h show ?thesis by (simp add: Sample_extract_def Sample_extract'_def)
  next
    case (Some w)
    from extract_of_walk[of ?b env w] Some h obtain a rd v where
      m: "mask_and_clip (sclip s) (nclip s) (w_angles w) (w_radii w) (w_intensities w)
           = Inr (a, rd, v)" by auto
    from Some wm have ws: "sample_walk env s = Some (log_probe s w)" by simp
    have "Sample_extract env ?b = Some (Inr ((a, rd, v),
           ?b\<lparr>total_points := w_total_points w,
             sector_area := Some (np_mean (w_sector_areas w)),
             actual_points := length (row0 (a, rd, v)), values' := Some (a, rd, v)\<rparr>, w_calls w))"
      by (rule extract_fresh) (use h Some m in simp_all)
    moreover have "Sample_extract env s = Some (Inr ((a, rd, v),
           s\<lparr>total_points := w_total_points (log_probe s w),
             sector_area := Some (np_mean (w_sector_areas (log_probe s w))),
             actual_points := length (row0 (a, rd, v)), values' := Some (a, rd, v)\<rparr>,
           w_calls (log_probe s w)))"
      by (rule extract_fresh) (use h ws m in \<open>simp_all add: log_probe_def\<close>)
    ultimately show ?thesis by (simp add: log_probe_def)
  qed
qed

theorem area_fallback_witness:
  "area_sensitive (stub_env flat10 (Fin (1/4))) (stub_sample flat10 (Fin (1/4)) 0 MEAN)
   \<and> flt (probe_area (stub_env flat10 (Fin (1/4))) (stub_sample flat10 (Fin (1/4)) 0 MEAN)) (Fin 1)
   \<and> \<not> area_sensitive (stub_env flat10 (Fin (1/4)))
         ((stub_sample flat10 (Fin (1/4)) 0 MEAN)\<lparr>integrmode := BI_LINEAR\<rparr>)
   \<and> values' (stub_sample flat10 (Fin (1/4)) 0 MEAN) = None
   \<and> (\<exists>t s1 calls.
         Sample_extract (stub_env flat10 (Fin (1/4)))
           ((stub_sample flat10 (Fin (1/4)) 0 MEAN)\<lparr>integrmode := BI_LINEAR\<rparr>)
           = Some (Inr (t, s1, calls))
       \<and> row2 t = replicate 13 (Fin 10) \<and> length calls = 13
       \<and> Sample_extract (stub_env flat10 (Fin (1/4))) (stub_sample flat10 (Fin (1/4)) 0 MEAN)
           = Some (Inr (t, s1\<lparr>integrmode := MEAN\<rparr>, (Fin 10, Fin (1/4)) # calls)))"
proof -
  let ?env = "stub_env flat10 (Fin (1/4))"
  let ?s = "stub_sample flat10 (Fin (1/4)) 0 MEAN"
  let ?b = "stub_sample flat10 (Fin (1/4)) 0 BI_LINEAR"
  let ?t = "(stub_angles, replicate 13 (Fin 10), map (flat10 (Fin 10)) stub_angles)"
  have b: "?s\<lparr>integrmode := BI_LINEAR\<rparr> = ?b"
    by (simp add: stub_sample_def Sample_init_def)
  have g: "geometry ?s = \<lparr>x0 = Fin 3, y0 = Fin 2, sma = Fin 10, eps = Fin 0, pa = Fin 0,
      astep = Fin (1/10), linear_growth = False, initial_polar_radius = Fin 10,
      initial_polar_angle = Fin (1/4)\<rparr>"
    unfolding stub_sample_def init_geometry by simp
  have im: "integrmode ?s = MEAN" "integrmode ?b = BI_LINEAR"
    by (simp_all add: stub_sample_def Sample_init_def)
  have a: "area_sensitive ?env ?s"
    by (simp add: area_sensitive_def im stub_env_def stub_integrators_def stub_integrator_def)
  have p: "flt (probe_area ?env ?s) (Fin 1)"
    by (simp add: probe_area_def im stub_env_def stub_integrators_def stub_integrator_def)
  have nb: "\<not> area_sensitive ?env (?s\<lparr>integrmode := BI_LINEAR\<rparr>)"
    unfolding b
    by (simp add: area_sensitive_def im stub_env_def stub_integrators_def stub_integrator_def)
  have v: "values' ?s = None" and vb: "values' ?b = None"
    and sc: "sclip ?b = Fin 3" and nc: "nclip ?b = 0"
    by (simp_all add: stub_sample_def Sample_init_def)
  have w: "sample_walk ?env ?b = Some \<lparr>w_integrator = 13, w_angles = stub_angles,
     w_radii = replicate 13 (Fin 10),
     w_intensities = map (flat10 (Fin 10)) stub_angles, w_sector_areas = replicate 13 (Fin 1),
     w_total_points = 13, w_radius = Fin 10, w_phi = Fin (27/4),
     w_calls = map (Pair (Fin 10)) stub_angles\<rparr>"
    unfolding stub_sample_def by (rule stub_walk)
  have m: "mask_and_clip (Fin 3) 0 stub_angles (replicate 13 (Fin 10))
      (map (flat10 (Fin 10)) stub_angles) = Inr ?t"
    by (rule mask_and_clip_all_finite) (simp_all add: stub_angles_def flat10_def)
  from extract_fresh[OF vb w] m sc nc obtain s1 where
    e: "Sample_extract ?env ?b = Some (Inr (?t, s1, map (Pair (Fin 10)) stub_angles))"
    by simp
  have r: "row2 ?t = replicate 13 (Fin 10)"
    by (simp add: row2_def stub_angles_def flat10_def eval_nat_numeral)
  have l: "length (map (Pair (Fin 10)) stub_angles) = 13" by (simp add: stub_angles_def)
  from area_fallback[OF a] p nb v
  have "Sample_extract ?env ?s =
      Some (Inr (?t, s1\<lparr>integrmode := MEAN\<rparr>,
        (Fin 10, Fin (1/4)) # map (Pair (Fin 10)) stub_angles))"
    by (simp add: b e g im)
  with a p nb v e r l show ?thesis
    unfolding b
    by (intro conjI exI[of _ ?t] exI[of _ s1] exI[of _ "map (Pair (Fin 10)) stub_angles"])
       assumption+
qed

text \<open>
  Claim C6. When \<open>extract\<close> returns and the series left after masking and clipping is
  empty, \<open>extract\<close> has not raised, and \<open>update\<close> (the extraction of its gradient Sample
  returning too) returns without raising, with NaN as mean, gradient, gradient error and
  relative gradient error.
\<close>

theorem empty_series_nan:
  assumes ext: "Sample_extract env s = Some r"
    and empty: "\<And>t s1 calls. r = Inr (t, s1, calls) \<Longrightarrow> row2 t = []"
    and sib: "Sample_extract env (gradient_sample env s (astep (geometry s))) \<noteq> None"
  shows "\<exists>t s1 calls s'. r = Inr (t, s1, calls)
           \<and> Sample_update env s = Some (Inr s')
           \<and> mean s' = Some NaN \<and> gradient s' = Some NaN
           \<and> gradient_error s' = Some NaN \<and> gradient_relative_error s' = Some NaN"
proof -
  from ext have "Sample_extract env s \<noteq> None" by simp
  then obtain t s1 calls where e: "Sample_extract env s = Some (Inr (t, s1, calls))"
    by (rule extract_returns)
  with ext have r: "r = Inr (t, s1, calls)" by simp
  from empty[OF r] have t: "row2 t = []" .
  from extract_preserves[OF e] have p: "values' s1 = Some t" "geometry s1 = geometry s"
    "image' s1 = image' s" "sclip s1 = sclip s" "nclip s1 = nclip s"
    "integrmode s1 = integrmode s" by simp_all
  let ?step = "astep (geometry s)"
  let ?s2 = "s1\<lparr>mean := Some (np_mean (row2 t))\<rparr>"
  have gs: "gradient_sample env ?s2 ?step = gradient_sample env s ?step"
    by (rule gradient_sample_cong) (simp_all add: p)
  from sib obtain sg gs' cg where
    g: "Sample_extract env (gradient_sample env s ?step) = Some (Inr (sg, gs', cg))"
    by (rule extract_returns)
  have gg: "Sample_get_gradient env ?s2 ?step = Some (Inr (NaN, NaN, ?s2))"
    using get_gradient_cached[of ?s2 t "np_mean (row2 t)" env ?step sg gs' cg] p g gs t
    by simp
  have u: "Sample_update env s =
      Some (Inr (finish_update ?s2 (previous_gradient ?s2) NaN NaN))"
    using e gg by (simp add: Sample_update_def Let_def)
  have "mean (finish_update ?s2 (previous_gradient ?s2) NaN NaN) = Some NaN"
    "gradient (finish_update ?s2 (previous_gradient ?s2) NaN NaN) = Some NaN"
    "gradient_error (finish_update ?s2 (previous_gradient ?s2) NaN NaN) = Some NaN"
    "gradient_relative_error (finish_update ?s2 (previous_gradient ?s2) NaN NaN) = Some NaN"
    using t by (simp_all add: finish_update_def Let_def)
  with r u show ?thesis by blast
qed

theorem empty_series_nan_witness:
  "\<exists>r. Sample_extract (stub_env dark (Fin (1/4))) (stub_sample dark (Fin (1/4)) 0 BI_LINEAR) = Some r
     \<and> (\<forall>t s1 calls. r = Inr (t, s1, calls) \<longrightarrow> row2 t = [])
     \<and> Sample_extract (stub_env dark (Fin (1/4)))
          (gradient_sample (stub_env dark (Fin (1/4))) (stub_sample dark (Fin (1/4)) 0 BI_LINEAR)
             (astep (geometry (stub_sample dark (Fin (1/4)) 0 BI_LINEAR)))) \<noteq> None
     \<and> (\<exists>s'. Sample_update (stub_env dark (Fin (1/4))) (stub_sample dark (Fin (1/4)) 0 BI_LINEAR)
            = Some (Inr s')
          \<and> mean s' = Some NaN \<and> gradient s' = Some NaN
          \<and> gradient_error s' = Some NaN \<and> gradient_relative_error s' = Some NaN)"
proof -
  let ?env = "stub_env dark (Fin (1/4))"
  let ?s = "stub_sample dark (Fin (1/4)) 0 BI_LINEAR"
  have v: "values' ?s = None" and sc: "sclip ?s = Fin 3" and nc: "nclip ?s = 0"
    and im: "integrmode ?s = BI_LINEAR"
    by (simp_all add: stub_sample_def Sample_init_def)
  have w: "sample_walk ?env ?s = Some \<lparr>w_integrator = 13, w_angles = stub_angles,
     w_radii = replicate 13 (Fin 10),
     w_intensities = map (dark (Fin 10)) stub_angles, w_sector_areas = replicate 13 (Fin 1),
     w_total_points = 13, w_radius = Fin 10, w_phi = Fin (27/4),
     w_calls = map (Pair (Fin 10)) stub_angles\<rparr>"
    unfolding stub_sample_def by (rule stub_walk)
  have m: "mask_and_clip (Fin 3) 0 stub_angles (replicate 13 (Fin 10))
      (map (dark (Fin 10)) stub_angles) = Inr ([], [], [])"
    by (rule mask_and_clip_none_finite) (simp_all add: stub_angles_def dark_def)
  from extract_fresh[OF v w] m sc nc obtain s1 where
    e: "Sample_extract ?env ?s = Some (Inr (([], [], []), s1, map (Pair (Fin 10)) stub_angles))"
    by simp
  have sib: "Sample_extract ?env (gradient_sample ?env ?s (astep (geometry ?s))) \<noteq> None"
    unfolding gradient_sample_def Let_def im by (rule stub_extract_returns)
  let ?r = "Inr (([], [], []), s1, map (Pair (Fin 10)) stub_angles)
    :: error + series \<times> Sample \<times> (npfloat \<times> npfloat) list"
  have "\<exists>t s1' calls s'. ?r = Inr (t, s1', calls)
      \<and> Sample_update ?env ?s = Some (Inr s')
      \<and> mean s' = Some NaN \<and> gradient s' = Some NaN
      \<and> gradient_error s' = Some NaN \<and> gradient_relative_error s' = Some NaN"
    by (rule empty_series_nan[OF e _ sib]) (auto simp: row2_def)
  then obtain s' where
    "Sample_update ?env ?s = Some (Inr s')" "mean s' = Some NaN" "gradient s' = Some NaN"
    "gradient_error s' = Some NaN" "gradient_relative_error s' = Some NaN"
    by blast
  moreover have "\<forall>t s1' calls. ?r = Inr (t, s1', calls) \<longrightarrow> row2 t = []"
    by (auto simp: row2_def)
  ultimately show ?thesis
    using e sib by (intro exI[of _ ?r] conjI exI[of _ s']) assumption+
qed




text \<open>
  Claim C9. After \<open>update\<close> the relative gradient error is the gradient error divided
  by the absolute gradient whenever the gradient error is defined, a defined zero
  included. On the image that falls linearly with the radius the code does otherwise:
  \<open>update\<close> returns the gradient -5 and the defined gradient error 0, for which the claim
  gives the relative error \<open>0 / 5 = 0\<close>, and leaves the relative gradient error
  undefined, because \<^verbatim>\<open>if gradient_error:\<close> is false for zero.
\<close>

theorem zero_gradient_error_evaluated:
  "\<exists>s'. Sample_update (stub_env radial (Fin (1/4))) (stub_sample radial (Fin (1/4)) 0 BI_LINEAR)
          = Some (Inr s')
     \<and> gradient s' = Some (Fin (- 5))
     \<and> gradient_error s' = Some (Fin 0)
     \<and> gradient_relative_error s' = None
     \<and> fdiv (Fin 0) (fabs (Fin (- 5))) = Fin 0"
proof -
  let ?env = "stub_env radial (Fin (1/4))"
  let ?s = "stub_sample radial (Fin (1/4)) 0 BI_LINEAR"
  let ?t = "(stub_angles, replicate 13 (Fin 10), replicate 13 (Fin 50))"
  have im: "integrmode ?s = BI_LINEAR" and g0: "gradient ?s = None"
    by (simp_all add: stub_sample_def Sample_init_def)
  have g: "geometry ?s = \<lparr>x0 = Fin 3, y0 = Fin 2, sma = Fin 10, eps = Fin 0, pa = Fin 0,
      astep = Fin (1/10), linear_growth = False, initial_polar_radius = Fin 10,
      initial_polar_angle = Fin (1/4)\<rparr>"
    unfolding stub_sample_def init_geometry by simp
  have "\<exists>s0. Sample_extract ?env ?s = Some (Inr (?t, s0, map (Pair (Fin 10)) stub_angles))"
    unfolding stub_sample_def
    by (rule stub_extract_constant) (simp add: radial_def fsub_def)
  then obtain s0 where
    e: "Sample_extract ?env ?s = Some (Inr (?t, s0, map (Pair (Fin 10)) stub_angles))" by blast
  from extract_preserves[OF e] have p: "values' s0 = Some ?t" "geometry s0 = geometry ?s"
    "image' s0 = image' ?s" "sclip s0 = sclip ?s" "nclip s0 = nclip ?s"
    "integrmode s0 = integrmode ?s" "gradient s0 = gradient ?s" by simp_all
  define s1 where "s1 = s0\<lparr>mean := Some (np_mean (row2 ?t))\<rparr>"
  have m1: "mean s1 = Some (Fin 50)" and v1: "values' s1 = Some ?t"
    and g1: "geometry s1 = geometry ?s" and pg: "previous_gradient s1 = Fin (- (5/100))"
    using p g0 by (simp_all add: s1_def np_mean_replicate previous_gradient_def row2_def)
  have cong: "gradient_sample ?env s1 d = gradient_sample ?env ?s d" for d
    by (rule gradient_sample_cong) (simp_all add: s1_def p)
  have sc: "sclip ?s = Fin 3" by (simp add: stub_sample_def Sample_init_def)
  have sgs: "gradient_sample ?env s1 (Fin (1/10)) =
      Sample_init ?env (image' ?s) (Fin 11) (Some (Fin 3)) (Some (Fin 2)) (Fin (1/10)) (Fin 0)
        (Fin 0) (Fin 3) (nclip ?s) False BI_LINEAR None"
    unfolding cong by (simp add: gradient_sample_def im g sc)
  have "\<exists>gs. Sample_extract ?env (gradient_sample ?env s1 (Fin (1/10))) =
      Some (Inr ((stub_angles, replicate 13 (Fin 11), replicate 13 (Fin 45)), gs,
        map (Pair (Fin 11)) stub_angles))"
    unfolding sgs by (rule stub_extract_constant) (simp add: radial_def fsub_def)
  then obtain gs where sg: "Sample_extract ?env (gradient_sample ?env s1 (Fin (1/10))) =
      Some (Inr ((stub_angles, replicate 13 (Fin 11), replicate 13 (Fin 45)), gs,
        map (Pair (Fin 11)) stub_angles))" by blast
  have q: "Sample_get_gradient ?env s1 (Fin (1/10)) = Some (Inr (Fin (- 5), Fin 0, s1))"
    using get_gradient_cached[OF v1 m1 sg]
    by (simp add: row2_def np_mean_replicate np_std_replicate fsub_def g1 g)
  have u: "Sample_update ?env ?s = Some (Inr (finish_update s1 (Fin (- (5/100))) (Fin (- 5)) (Fin 0)))"
    using e q pg
    by (simp add: Sample_update_def Let_def s1_def[symmetric] g fge_def)
  have f: "gradient (finish_update s1 (Fin (- (5/100))) (Fin (- 5)) (Fin 0)) = Some (Fin (- 5))"
    "gradient_error (finish_update s1 (Fin (- (5/100))) (Fin (- 5)) (Fin 0)) = Some (Fin 0)"
    "gradient_relative_error (finish_update s1 (Fin (- (5/100))) (Fin (- 5)) (Fin 0)) = None"
    by (simp_all add: finish_update_def Let_def fge_def)
  have "fdiv (Fin 0) (fabs (Fin (- 5))) = Fin 0" by simp
  with u f show ?thesis by blast
qed

end
